theory Spec2Isabelle
  imports Complex_Main
begin

section \<open>Arrays, errors and the helpers of numpy that grid.py uses\<close>

text \<open>
  The arrays of grid.py are numpy arrays of floating-point numbers. They are modelled as
  nested lists of reals, outermost axis first: a 3D field is indexed \<open>a ! k ! j ! i\<close>
  as the source writes \<open>a[k,j,i]\<close>. Arithmetic is that of the reals, so the values are
  those of finite floats without rounding; NaN, which the draft calculation uses as a
  marker for "not assigned yet", is the value \<open>None\<close> of an option.

  A call of \<open>sys.exit()\<close> and an exception of Python are values of the type
  \<open>error\<close>; a function that can fail returns \<open>error + 'a\<close>.
\<close>

datatype error = SysExit string | IndexError | ValueError | TypeError | OverflowError | AttributeError

definition bindE :: "error + 'a \<Rightarrow> ('a \<Rightarrow> error + 'b) \<Rightarrow> error + 'b" where
  "bindE m f = (case m of Inl e \<Rightarrow> Inl e | Inr x \<Rightarrow> f x)"

type_synonym arr1 = "real list"
type_synonym arr2 = "real list list"
type_synonym arr3 = "real list list list"
type_synonym mask = "bool list list"

text \<open>\<open>np.amin\<close> and \<open>np.amax\<close> raise ValueError on an array without elements.\<close>

definition amin :: "arr1 \<Rightarrow> error + real" where
  "amin xs = (case xs of [] \<Rightarrow> Inl ValueError | x # r \<Rightarrow> Inr (fold min r x))"

definition amax :: "arr1 \<Rightarrow> error + real" where
  "amax xs = (case xs of [] \<Rightarrow> Inl ValueError | x # r \<Rightarrow> Inr (fold max r x))"

definition amin2 :: "arr2 \<Rightarrow> error + real" where
  "amin2 a = amin (concat a)"

definition amax2 :: "arr2 \<Rightarrow> error + real" where
  "amax2 a = amax (concat a)"

text \<open>\<open>np.diff(x)\<close> and the test \<open>np.all(np.diff(x)>0)\<close>.\<close>

definition np_diff :: "arr1 \<Rightarrow> arr1" where
  "np_diff xs = map2 (\<lambda>a b. b - a) xs (tl xs)"

definition strictly_increasing :: "arr1 \<Rightarrow> bool" where
  "strictly_increasing xs = list_all (\<lambda>d. d > 0) (np_diff xs)"

text \<open>\<open>a[0,:]\<close> and \<open>a[:,0]\<close> of a 2D array; both raise IndexError when the axis
  that is indexed has no element.\<close>

definition row0 :: "arr2 \<Rightarrow> error + arr1" where
  "row0 a = (case a of [] \<Rightarrow> Inl IndexError | r # _ \<Rightarrow> Inr r)"

definition col0 :: "arr2 \<Rightarrow> error + arr1" where
  "col0 a = (if list_all (\<lambda>r. r \<noteq> []) a then Inr (map hd a) else Inl IndexError)"

text \<open>\<open>np.meshgrid(x, y)\<close>.\<close>

definition meshgrid :: "arr1 \<Rightarrow> arr1 \<Rightarrow> arr2 \<times> arr2" where
  "meshgrid x y = (replicate (length y) x, map (\<lambda>v. replicate (length x) v) y)"

text \<open>\<open>np.sum(a, axis=0)\<close> of a 3D array. An array of no layers is the empty list,
  which does not record the horizontal shape; its sum is the empty 2D array.\<close>

definition sum_axis0 :: "arr3 \<Rightarrow> arr2" where
  "sum_axis0 a = (case a of [] \<Rightarrow> [] | l # ls \<Rightarrow> fold (\<lambda>x acc. map2 (map2 (+)) acc x) ls l)"

section \<open>utils.fix\_lon\_range\<close>

text \<open>
  Modelled from the spec: \<open>utils.fix_lon_range\<close> is imported by grid.py and is not among
  the source files. The spec (4.1) says that it remaps every value into the half-open
  interval \<open>(max_lon - 360, max_lon]\<close> by adding or subtracting 360 as needed, for an
  array of any shape. The interval has no meaning when \<open>max_lon\<close> is \<open>None\<close>
  (\<open>None - 360\<close> is a TypeError of Python), which is the result here.
\<close>

definition fix_lon_val :: "real \<Rightarrow> real \<Rightarrow> real" where
  "fix_lon_val max_lon x = x - 360 * of_int \<lceil>(x - max_lon) / 360\<rceil>"

definition fix_lon_range :: "arr1 \<Rightarrow> real option \<Rightarrow> error + arr1" where
  "fix_lon_range lon max_lon =
     (case max_lon of None \<Rightarrow> Inl TypeError | Some m \<Rightarrow> Inr (map (fix_lon_val m) lon))"

definition fix_lon_range2 :: "arr2 \<Rightarrow> real option \<Rightarrow> error + arr2" where
  "fix_lon_range2 lon max_lon =
     (case max_lon of None \<Rightarrow> Inl TypeError | Some m \<Rightarrow> Inr (map (map (fix_lon_val m)) lon))"

section \<open>Grid: the mask builders\<close>

text \<open>\<open>Grid.build_land_mask\<close>: \<open>np.sum(hfac, axis=0)==0\<close>.\<close>

definition build_land_mask :: "arr3 \<Rightarrow> mask" where
  "build_land_mask hfac = map (map (\<lambda>s. s = 0)) (sum_axis0 hfac)"

text \<open>\<open>Grid.build_ice_mask\<close>: \<open>(np.sum(hfac, axis=0)!=0)*(hfac[0,:]<1)\<close>.\<close>

definition build_ice_mask :: "arr3 \<Rightarrow> error + mask" where
  "build_ice_mask hfac =
     (case hfac of [] \<Rightarrow> Inl IndexError
      | layer0 # _ \<Rightarrow> Inr (map2 (map2 (\<lambda>s h. s \<noteq> 0 \<and> h < 1)) (sum_axis0 hfac) layer0))"

text \<open>
  \<open>Grid.build_fris_mask\<close>. The constant \<open>fris_bounds\<close> of constants.py is not among the
  source files and is a parameter: a list in the form [lon\_min, lon\_max, lat\_min,
  lat\_max]. Each pass of the loop over the two regions sets the mask to true where
  \<open>index\<close> holds and leaves it elsewhere.
\<close>

definition fris_regions :: "real list \<Rightarrow> real list list" where
  "fris_regions fris_bounds =
     [[fris_bounds ! 0, -45, fris_bounds ! 2, -74.7], [-45, fris_bounds ! 1, fris_bounds ! 2, -77.85]]"

definition in_bounds :: "real list \<Rightarrow> arr2 \<Rightarrow> arr2 \<Rightarrow> mask" where
  "in_bounds bounds lon lat =
     map2 (map2 (\<lambda>x y. x \<ge> bounds ! 0 \<and> x \<le> bounds ! 1 \<and> y \<ge> bounds ! 2 \<and> y \<le> bounds ! 3)) lon lat"

definition mask_and :: "mask \<Rightarrow> mask \<Rightarrow> mask" where
  "mask_and a b = map2 (map2 (\<and>)) a b"

definition set_true :: "mask \<Rightarrow> mask \<Rightarrow> mask" where
  "set_true index m = map2 (map2 (\<lambda>ix v. if ix then True else v)) index m"

definition build_fris_mask :: "real list \<Rightarrow> mask \<Rightarrow> arr2 \<Rightarrow> arr2 \<Rightarrow> mask" where
  "build_fris_mask fris_bounds ice_mask lon lat =
     fold (\<lambda>bounds fris_mask. set_true (mask_and ice_mask (in_bounds bounds lon lat)) fris_mask)
       (fris_regions fris_bounds)
       (map (map (\<lambda>_. False)) ice_mask)"

text \<open>\<open>Grid.build_ewed_mask\<close> and \<open>Grid.build_sws_shelf_mask\<close>, with the constants
  \<open>ewed_bounds\<close> and \<open>sws_shelf_bounds\<close> as parameters.\<close>

definition build_ewed_mask :: "real list \<Rightarrow> mask \<Rightarrow> arr2 \<Rightarrow> arr2 \<Rightarrow> mask" where
  "build_ewed_mask ewed_bounds ice_mask lon lat = mask_and ice_mask (in_bounds ewed_bounds lon lat)"

definition build_sws_shelf_mask :: "real list \<Rightarrow> mask \<Rightarrow> mask \<Rightarrow> arr2 \<Rightarrow> arr2 \<Rightarrow> arr2 \<Rightarrow> mask" where
  "build_sws_shelf_mask sws_shelf_bounds land_mask ice_mask lon lat bathy =
     mask_and (map (map Not) land_mask)
       (mask_and (map (map Not) ice_mask)
          (mask_and (map (map (\<lambda>b. b \<ge> -1250)) bathy) (in_bounds sws_shelf_bounds lon lat)))"

section \<open>Grid: the ice shelf draft\<close>

text \<open>
  One pass of the loop \<open>for k in range(self.nz)\<close>: a cell that is wet in layer \<open>k\<close>
  and whose draft is still NaN gets \<open>z_edges[k] - dz[k]*(1-hfac[k,j,i])\<close>.
\<close>

definition draft_layer :: "arr1 \<Rightarrow> arr1 \<Rightarrow> arr3 \<Rightarrow> nat \<Rightarrow> real option list list \<Rightarrow> real option list list" where
  "draft_layer z_edges dz hfac k draft =
     map2 (map2 (\<lambda>h d. if h \<noteq> 0 \<and> d = None then Some (z_edges ! k - dz ! k * (1 - h)) else d))
       (hfac ! k) draft"

fun draft_loop :: "arr1 \<Rightarrow> arr1 \<Rightarrow> arr3 \<Rightarrow> nat list \<Rightarrow> real option list list \<Rightarrow> error + real option list list" where
  "draft_loop z_edges dz hfac [] draft = Inr draft"
| "draft_loop z_edges dz hfac (k # ks) draft =
     (if k < length hfac \<and> k < length z_edges \<and> k < length dz
      then draft_loop z_edges dz hfac ks (draft_layer z_edges dz hfac k draft)
      else Inl IndexError)"

definition calc_draft :: "nat \<Rightarrow> nat \<Rightarrow> nat \<Rightarrow> arr1 \<Rightarrow> arr1 \<Rightarrow> arr3 \<Rightarrow> error + arr2" where
  "calc_draft ny nx nz z_edges dz hfac =
     bindE (draft_loop z_edges dz hfac [0..<nz] (replicate ny (replicate nx None)))
       (\<lambda>draft. Inr (map (map (\<lambda>d. case d of None \<Rightarrow> 0 | Some v \<Rightarrow> v)) draft))"

section \<open>Grid: construction\<close>

text \<open>
  What the reader (\<open>read_netcdf\<close> or \<open>rdmds\<close>) returns for the variables that
  \<open>Grid.__init__\<close> uses. The four coordinate arrays are either all 2D or all 1D (the
  output of xmitgcm). The depth variables are 1D (after \<open>squeeze\<close>). The cell sizes
  \<open>dx_s\<close>, \<open>dy_w\<close>, \<open>dA\<close> and \<open>dz_t\<close> are stored as read and used nowhere in the class;
  they are left out.
\<close>

datatype coords = Coords2D arr2 arr2 arr2 arr2 | Coords1D arr1 arr1 arr1 arr1

record grid_files =
  XYC :: coords
  Z :: arr1
  Zp1 :: arr1
  drF :: arr1
  hFacC :: arr3
  hFacW :: arr3
  hFacS :: arr3
  Depth :: arr2

record grid =
  lon_2d :: arr2
  lat_2d :: arr2
  lon_corners_2d :: arr2
  lat_corners_2d :: arr2
  lon_1d :: arr1
  lat_1d :: arr1
  lon_corners_1d :: arr1
  lat_corners_1d :: arr1
  z :: arr1
  z_edges :: arr1
  dz :: arr1
  hfac :: arr3
  hfac_w :: arr3
  hfac_s :: arr3
  wct :: arr2
  nx :: nat
  ny :: nat
  nz :: nat
  draft :: arr2
  bathy :: arr2
  land_mask :: mask
  land_mask_u :: mask
  land_mask_v :: mask
  ice_mask :: mask
  ice_mask_u :: mask
  ice_mask_v :: mask
  fris_mask :: mask
  fris_mask_u :: mask
  fris_mask_v :: mask
  ewed_mask :: mask
  sws_shelf_mask :: mask

text \<open>The constants of constants.py that the Grid uses, as parameters.\<close>

record constants =
  fris_bounds :: "real list"
  ewed_bounds :: "real list"
  sws_shelf_bounds :: "real list"

text \<open>The 1D and 2D versions of the coordinate arrays (lines 98 to 111).\<close>

definition make_axes :: "coords \<Rightarrow> error + (arr2 \<times> arr2 \<times> arr2 \<times> arr2) \<times> (arr1 \<times> arr1 \<times> arr1 \<times> arr1)" where
  "make_axes c =
     (case c of
        Coords2D xc yc xg yg \<Rightarrow>
          bindE (row0 xc) (\<lambda>lon1.
          bindE (col0 yc) (\<lambda>lat1.
          bindE (row0 xg) (\<lambda>lonc1.
          bindE (col0 yg) (\<lambda>latc1.
            Inr ((xc, yc, xg, yg), (lon1, lat1, lonc1, latc1))))))
      | Coords1D xc yc xg yg \<Rightarrow>
          Inr ((fst (meshgrid xc yc), snd (meshgrid xc yc),
                fst (meshgrid xg yg), snd (meshgrid xg yg)), (xc, yc, xg, yg)))"

text \<open>
  The choice of the longitude range (lines 113 to 127). Only when \<open>max_lon\<close> is
  \<open>None\<close> and \<open>x_is_lon\<close> holds is the range chosen, the axis normalised once
  "to test" and checked to be strictly increasing. The result is the \<open>max_lon\<close> in
  force afterwards and the centre axis as it stands then.
\<close>

definition choose_max_lon :: "bool \<Rightarrow> real option \<Rightarrow> arr1 \<Rightarrow> error + real option \<times> arr1" where
  "choose_max_lon x_is_lon max_lon lon1 =
     (if max_lon = None \<and> x_is_lon then
        bindE (amin lon1) (\<lambda>lo.
        bindE (amax lon1) (\<lambda>hi.
          let m = (if lo < 180 \<and> hi > 180 then 360 else 180) in
          bindE (fix_lon_range lon1 (Some m)) (\<lambda>lon1'.
            if \<not> strictly_increasing lon1'
            then Inl (SysExit ''Error (Grid): Longitude is not strictly increasing either in the range (0, 360) or (-180, 180).'')
            else Inr (Some m, lon1'))))
      else Inr (max_lon, lon1))"

definition arr2_sub :: "arr2 \<Rightarrow> arr2 \<Rightarrow> arr2" where
  "arr2_sub a b = map2 (map2 (-)) a b"

text \<open>
  \<open>Grid.__init__\<close>, from the arrays read to the finished object. Arrays of inconsistent
  shapes, on which numpy raises or broadcasts, are outside the model: the elementwise
  operations pair the elements up to the shorter length, and the theorems state the
  shapes they assume.
\<close>

definition Grid_init :: "constants \<Rightarrow> grid_files \<Rightarrow> bool \<Rightarrow> real option \<Rightarrow> error + grid" where
  "Grid_init cs f x_is_lon max_lon0 =
     bindE (make_axes (XYC f)) (\<lambda>((lon2, lat2, lonc2, latc2), (lon1, lat1, lonc1, latc1)).
     bindE (choose_max_lon x_is_lon max_lon0 lon1) (\<lambda>(max_lon, lon1a).
     bindE (fix_lon_range lon1a max_lon) (\<lambda>lon1b.
     bindE (fix_lon_range lonc1 max_lon) (\<lambda>lonc1b.
     bindE (fix_lon_range2 lon2 max_lon) (\<lambda>lon2b.
     bindE (fix_lon_range2 lonc2 max_lon) (\<lambda>lonc2b.
       let nx' = length lon1b; ny' = length lat1; nz' = length (Z f) in
     bindE (calc_draft ny' nx' nz' (Zp1 f) (drF f) (hFacC f)) (\<lambda>draft'.
       let bathy' = arr2_sub draft' (Depth f);
           lm = build_land_mask (hFacC f);
           lmu = build_land_mask (hFacW f);
           lmv = build_land_mask (hFacS f) in
     bindE (build_ice_mask (hFacC f)) (\<lambda>im.
     bindE (build_ice_mask (hFacW f)) (\<lambda>imu.
     bindE (build_ice_mask (hFacS f)) (\<lambda>imv.
       Inr \<lparr> lon_2d = lon2b, lat_2d = lat2, lon_corners_2d = lonc2b, lat_corners_2d = latc2,
             lon_1d = lon1b, lat_1d = lat1, lon_corners_1d = lonc1b, lat_corners_1d = latc1,
             z = Z f, z_edges = Zp1 f, dz = drF f,
             hfac = hFacC f, hfac_w = hFacW f, hfac_s = hFacS f, wct = Depth f,
             nx = nx', ny = ny', nz = nz',
             draft = draft', bathy = bathy',
             land_mask = lm, land_mask_u = lmu, land_mask_v = lmv,
             ice_mask = im, ice_mask_u = imu, ice_mask_v = imv,
             fris_mask = build_fris_mask (fris_bounds cs) im lon2b lat2,
             fris_mask_u = build_fris_mask (fris_bounds cs) imu lonc2b lat2,
             fris_mask_v = build_fris_mask (fris_bounds cs) imv lon2b latc2,
             ewed_mask = build_ewed_mask (ewed_bounds cs) im lon2b lat2,
             sws_shelf_mask = build_sws_shelf_mask (sws_shelf_bounds cs) lm im lon2b lat2 bathy' \<rparr>))))))))))"

section \<open>Shapes\<close>

text \<open>An array of shape \<open>(n, m)\<close>, and one of shape \<open>(l, n, m)\<close>.\<close>

definition shape2 :: "'a list list \<Rightarrow> nat \<Rightarrow> nat \<Rightarrow> bool" where
  "shape2 a n m = (length a = n \<and> list_all (\<lambda>r. length r = m) a)"

definition shape3 :: "'a list list list \<Rightarrow> nat \<Rightarrow> nat \<Rightarrow> nat \<Rightarrow> bool" where
  "shape3 a l n m = (length a = l \<and> list_all (\<lambda>x. shape2 x n m) a)"

section \<open>The regions of the FRIS mask as the claim words them\<close>

text \<open>
  Claim C6 describes the mask by two regions: region A with the longitude in the closed
  interval from the western bound to -45, and region B with the longitude in the
  half-open interval from -45 (excluded) to the eastern bound. These two predicates
  follow the words of the claim; \<open>build_fris_mask\<close> above follows the source.
\<close>

definition claim_region_A :: "real list \<Rightarrow> real \<Rightarrow> real \<Rightarrow> bool" where
  "claim_region_A fb x y = (fb ! 0 \<le> x \<and> x \<le> -45 \<and> fb ! 2 \<le> y \<and> y \<le> -74.7)"

definition claim_region_B :: "real list \<Rightarrow> real \<Rightarrow> real \<Rightarrow> bool" where
  "claim_region_B fb x y = (-45 < x \<and> x \<le> fb ! 1 \<and> fb ! 2 \<le> y \<and> y \<le> -77.85)"

section \<open>Example inputs\<close>

text \<open>
  The synthetic grid of the spec's example: 4 by 4 points and 3 layers, \<open>hfac\<close> 0.5 in
  the top layer, \<open>z_edges = [0,-10,-20,-30]\<close>, \<open>dz = [10,10,10]\<close>, \<open>wct = 25\<close>. The
  coordinates are 1D axes over the Filchner-Ronne region, the column of longitudes
  around 45W.
\<close>

definition example_files :: grid_files where
  "example_files =
     \<lparr> XYC = Coords1D [-46, -45, -44, -43] [-79, -78, -77, -76]
                      [-93/2, -91/2, -89/2, -87/2] [-159/2, -157/2, -155/2, -153/2],
       Z = [-5, -15, -25],
       Zp1 = [0, -10, -20, -30],
       drF = [10, 10, 10],
       hFacC = [replicate 4 (replicate 4 (1/2)), replicate 4 (replicate 4 1), replicate 4 (replicate 4 1)],
       hFacW = [replicate 4 (replicate 4 (1/2)), replicate 4 (replicate 4 1), replicate 4 (replicate 4 1)],
       hFacS = [replicate 4 (replicate 4 (1/2)), replicate 4 (replicate 4 1), replicate 4 (replicate 4 1)],
       Depth = replicate 4 (replicate 4 25) \<rparr>"

definition example_constants :: constants where
  "example_constants = \<lparr> fris_bounds = [-85, -29, -84, -74], ewed_bounds = [-30, 40, -77, -65],
      sws_shelf_bounds = [-70, -30, -79, -72] \<rparr>"

text \<open>A grid of 2 by 2 points and one layer whose centre longitudes 170 and 190 lie on
  the two sides of 180E.\<close>

definition dateline_files :: grid_files where
  "dateline_files =
     \<lparr> XYC = Coords1D [170, 190] [-75, -74] [165, 185] [-151/2, -149/2],
       Z = [-5],
       Zp1 = [0, -10],
       drF = [10],
       hFacC = [[[1, 1], [1, 1]]],
       hFacW = [[[1, 1], [1, 1]]],
       hFacS = [[[1, 1], [1, 1]]],
       Depth = [[10, 10], [10, 10]] \<rparr>"

text \<open>The Grid constructed from the example, with the longitude range chosen
  automatically.\<close>

definition example_grid :: grid where
  "example_grid = projr (Grid_init example_constants example_files True None)"

section \<open>Indexing and slicing as Python does it\<close>

text \<open>\<open>x[0]\<close>, \<open>x[-1]\<close>, \<open>x[-2]\<close> and \<open>x[i]\<close> for an integer \<open>i\<close> (a
  negative index counts from the end); each raises IndexError out of range.\<close>

definition first_elem :: "'a list \<Rightarrow> error + 'a" where
  "first_elem xs = (case xs of [] \<Rightarrow> Inl IndexError | x # _ \<Rightarrow> Inr x)"

definition last_elem :: "'a list \<Rightarrow> error + 'a" where
  "last_elem xs = (if xs = [] then Inl IndexError else Inr (last xs))"

definition py_get :: "'a list \<Rightarrow> int \<Rightarrow> error + 'a" where
  "py_get xs i =
     (if 0 \<le> i \<and> i < int (length xs) then Inr (xs ! nat i)
      else if i < 0 \<and> - int (length xs) \<le> i then Inr (xs ! nat (int (length xs) + i))
      else Inl IndexError)"

text \<open>\<open>np.nonzero(cond)[0][0]\<close>: the first index at which the condition holds,
  IndexError when there is none.\<close>

definition first_index :: "('a \<Rightarrow> bool) \<Rightarrow> 'a list \<Rightarrow> error + int" where
  "first_index P xs =
     (case find (\<lambda>i. P (xs ! i)) [0..<length xs] of None \<Rightarrow> Inl IndexError | Some i \<Rightarrow> Inr (int i))"

text \<open>
  The slice \<open>x[a:b]\<close> for integers \<open>a\<close> and \<open>b\<close>: a negative bound counts from the
  end, and both are clipped to the length. \<open>set_slice a b dest src\<close> is the array
  after \<open>dest[a:b] = src\<close> when \<open>src\<close> has the length of the slice.
\<close>

definition clip :: "nat \<Rightarrow> int \<Rightarrow> nat" where
  "clip n i = (if i < 0 then nat (max 0 (int n + i)) else min n (nat i))"

definition py_slice :: "int \<Rightarrow> int \<Rightarrow> 'a list \<Rightarrow> 'a list" where
  "py_slice a b xs = drop (clip (length xs) a) (take (clip (length xs) b) xs)"

definition slice_len :: "nat \<Rightarrow> int \<Rightarrow> int \<Rightarrow> nat" where
  "slice_len n a b = clip n b - clip n a"

definition set_slice :: "int \<Rightarrow> int \<Rightarrow> 'a list \<Rightarrow> 'a list \<Rightarrow> 'a list" where
  "set_slice a b dest src =
     take (clip (length dest) a) dest @ src @ drop (clip (length dest) a + slice_len (length dest) a b) dest"

section \<open>utils.split\_longitude\<close>

text \<open>
  Modelled from the spec: \<open>utils.split_longitude\<close> is imported by grid.py and is not
  among the source files. The spec (4.6, step 2) says that the longitude axis is rotated
  (not interpolated) at the index \<open>i_split\<close>, so that the part from \<open>i_split\<close> on comes
  first and the indices run on without a seam, and that the identical rotation is
  applied to every field that is read. Longitude is the last axis of every array.
\<close>

definition split_longitude :: "'a list \<Rightarrow> nat \<Rightarrow> 'a list" where
  "split_longitude xs i = drop i xs @ take i xs"

definition split_longitude2 :: "'a list list \<Rightarrow> nat \<Rightarrow> 'a list list" where
  "split_longitude2 a i = map (\<lambda>r. split_longitude r i) a"

definition split_longitude3 :: "'a list list list \<Rightarrow> nat \<Rightarrow> 'a list list list" where
  "split_longitude3 a i = map (\<lambda>l. split_longitude2 l i) a"

section \<open>SOSEGrid: the data\<close>

text \<open>
  What \<open>rdmds\<close> returns for the grid files of SOSE: the four coordinate arrays are 2D,
  \<open>RC\<close> is taken after \<open>squeeze\<close> (1D), the three \<open>hFac\<close> fields are 3D. A field
  read by \<open>read_field\<close> has two, three or four axes.
\<close>

record sose_files =
  XC :: arr2
  XG :: arr2
  YC :: arr2
  YG :: arr2
  RC :: arr1
  SOSE_hFacC :: arr3
  SOSE_hFacW :: arr3
  SOSE_hFacS :: arr3

datatype ndarray = A2 arr2 | A3 arr3 | A4 "arr3 list"

text \<open>
  The attributes of a SOSEGrid that \<open>read_field\<close> uses, and then the whole object.
  An attribute that \<open>Grid\<close> has as well carries the prefix \<open>s_\<close> here (a field name of
  a record is global). The indices are Python integers. When \<open>trim_extend\<close> is false
  the index attributes do not exist in the source; they are 0 in the record and never
  read.
\<close>

record sose_align =
  trim_extend :: bool
  i_split :: nat
  i0_before :: int
  i0_after :: int
  i1_before :: int
  i1_after :: int
  j0_before :: int
  j0_after :: int
  j1_before :: int
  j1_after :: int
  k0_before :: int
  k0_after :: int
  k1_before :: int
  k1_after :: int
  s_nx :: int
  s_ny :: int
  s_nz :: int

record sose_grid = sose_align +
  s_lon_1d :: arr1
  s_lon_corners_1d :: arr1
  s_lat_1d :: arr1
  s_lat_corners_1d :: arr1
  s_z :: arr1
  s_hfac :: arr3
  s_hfac_w :: arr3
  s_hfac_s :: arr3
  s_land_mask :: mask
  s_land_mask_u :: mask
  s_land_mask_v :: mask

section \<open>SOSEGrid.read\_field\<close>

text \<open>
  \<open>data[..., j0_after:j1_after, i0_after:i1_after] = data_orig[..., j0_before:j1_before,
  i0_before:i1_before]\<close> on one 2D layer, and the same with the depth slices on one 3D
  block. The array \<open>data\<close> is the one that \<open>read_field\<close> has just filled, of the
  shape \<open>(s_ny, s_nx)\<close> or \<open>(s_nz, s_ny, s_nx)\<close>, from which the lengths of the window
  are taken. numpy raises ValueError when the shape of the right-hand side is not that
  of the window; its broadcasting of a right-hand side with axes of length 1 is not
  modelled (the result is the ValueError as well).
\<close>

definition assign2 :: "'a sose_align_scheme \<Rightarrow> arr2 \<Rightarrow> arr2 \<Rightarrow> error + arr2" where
  "assign2 g data data_orig =
     (let src = map (py_slice (i0_before g) (i1_before g)) (py_slice (j0_before g) (j1_before g) data_orig)
      in if shape2 src (slice_len (nat (s_ny g)) (j0_after g) (j1_after g))
                       (slice_len (nat (s_nx g)) (i0_after g) (i1_after g))
         then Inr (set_slice (j0_after g) (j1_after g) data
                     (map2 (set_slice (i0_after g) (i1_after g))
                        (py_slice (j0_after g) (j1_after g) data) src))
         else Inl ValueError)"

definition assign3 :: "'a sose_align_scheme \<Rightarrow> arr3 \<Rightarrow> arr3 \<Rightarrow> error + arr3" where
  "assign3 g data data_orig =
     (let src = map (\<lambda>l. map (py_slice (i0_before g) (i1_before g)) (py_slice (j0_before g) (j1_before g) l))
                  (py_slice (k0_before g) (k1_before g) data_orig)
      in if shape3 src (slice_len (nat (s_nz g)) (k0_after g) (k1_after g))
                       (slice_len (nat (s_ny g)) (j0_after g) (j1_after g))
                       (slice_len (nat (s_nx g)) (i0_after g) (i1_after g))
         then Inr (set_slice (k0_after g) (k1_after g) data
                     (map2 (\<lambda>d l. set_slice (j0_after g) (j1_after g) d
                                     (map2 (set_slice (i0_after g) (i1_after g))
                                        (py_slice (j0_after g) (j1_after g) d) l))
                        (py_slice (k0_after g) (k1_after g) data) src))
         else Inl ValueError)"

text \<open>The same assignment for every time index of a time-dependent field; the first
  failure is the result.\<close>

fun map_time :: "('a \<Rightarrow> error + 'b) \<Rightarrow> 'a list \<Rightarrow> error + 'b list" where
  "map_time f [] = Inr []"
| "map_time f (x # xs) = bindE (f x) (\<lambda>y. bindE (map_time f xs) (\<lambda>ys. Inr (y # ys)))"

text \<open>
  \<open>SOSEGrid.read_field\<close>. The argument \<open>file_data\<close> is what \<open>rdmds\<close> returns for
  the file. \<open>np.zeros(data_shape)\<close> raises ValueError for a negative dimension. A
  field whose number of axes does not fit \<open>dimensions\<close> is outside the model (numpy's
  broadcasting decides what happens then); the result is the ValueError.
\<close>

definition read_field :: "'a sose_align_scheme \<Rightarrow> ndarray \<Rightarrow> string \<Rightarrow> real \<Rightarrow> error + ndarray" where
  "read_field g file_data dimensions fill_value =
     (if trim_extend g then
        let has_z = (CHR ''z'' \<in> set dimensions); has_t = (CHR ''t'' \<in> set dimensions) in
        if s_ny g < 0 \<or> s_nx g < 0 \<or> (has_z \<and> s_nz g < 0) then Inl ValueError
        else
          let blank2 = replicate (nat (s_ny g)) (replicate (nat (s_nx g)) fill_value);
              blank3 = replicate (nat (s_nz g)) blank2 in
          if has_z then
            (case file_data of
               A3 d \<Rightarrow> if has_t then Inl ValueError
                       else bindE (assign3 g blank3 (split_longitude3 d (i_split g))) (\<lambda>r. Inr (A3 r))
             | A4 d \<Rightarrow> if has_t
                       then bindE (map_time (\<lambda>x. assign3 g blank3 (split_longitude3 x (i_split g))) d)
                              (\<lambda>r. Inr (A4 r))
                       else Inl ValueError
             | A2 d \<Rightarrow> Inl ValueError)
          else
            (case file_data of
               A2 d \<Rightarrow> if has_t then Inl ValueError
                       else bindE (assign2 g blank2 (split_longitude2 d (i_split g))) (\<lambda>r. Inr (A2 r))
             | A3 d \<Rightarrow> if has_t
                       then bindE (map_time (\<lambda>x. assign2 g blank2 (split_longitude2 x (i_split g))) d)
                              (\<lambda>r. Inr (A3 r))
                       else Inl ValueError
             | A4 d \<Rightarrow> Inl ValueError)
      else Inr file_data)"

section \<open>SOSEGrid: construction\<close>

text \<open>
  The longitude range (lines 360 to 374). The two tests of the model grid against the
  range only print a message, they do not exit; \<open>np.amax\<close> and \<open>np.amin\<close> are
  evaluated for them.
\<close>

definition sose_max_lon :: "grid option \<Rightarrow> int \<Rightarrow> error + real" where
  "sose_max_lon model_grid split =
     (case model_grid of
        None \<Rightarrow> Inr 360
      | Some mg \<Rightarrow>
          if split = 180 then bindE (amax2 (lon_2d mg)) (\<lambda>_. Inr 180)
          else if split = 0 then bindE (amin2 (lon_2d mg)) (\<lambda>_. Inr 360)
          else Inl (SysExit ''Error (SOSEGrid): split must be 180 or 0''))"

text \<open>
  The axes as read (lines 378 to 404): the centre longitudes, split at the first negative
  value when \<open>split\<close> is 180; the corner longitudes, split at the same index, with
  360 taken from the first one when it is positive; the check that both are strictly
  increasing; the latitudes and the depth. The result is \<open>i_split\<close> and the five axes.
\<close>

definition sose_axes :: "sose_files \<Rightarrow> real \<Rightarrow> int \<Rightarrow> error + nat \<times> arr1 \<times> arr1 \<times> arr1 \<times> arr1 \<times> arr1" where
  "sose_axes f max_lon split =
     bindE (fix_lon_range2 (XC f) (Some max_lon)) (\<lambda>xc.
     bindE (row0 xc) (\<lambda>lon0.
     bindE (if split = 180
            then bindE (first_index (\<lambda>v. v < 0) lon0) (\<lambda>i. Inr (nat i, split_longitude lon0 (nat i)))
            else Inr (0, lon0)) (\<lambda>(isplit, lon1).
     bindE (fix_lon_range2 (XG f) (Some max_lon)) (\<lambda>xg.
     bindE (row0 (split_longitude2 xg isplit)) (\<lambda>lonc0.
     bindE (first_elem lonc0) (\<lambda>c0.
       let lonc1 = (if c0 > 0 then lonc0[0 := c0 - 360] else lonc0) in
       if \<not> strictly_increasing lon1 \<or> \<not> strictly_increasing lonc1
       then Inl (SysExit ''Error (SOSEGrid): longitude is not strictly increasing'')
       else
     bindE (col0 (YC f)) (\<lambda>lat1.
     bindE (col0 (YG f)) (\<lambda>latc1.
       Inr (isplit, lon1, lonc1, lat1, latc1, RC f)))))))))"

text \<open>The western and eastern bounds (lines 438 to 461): \<open>i0_before\<close> and
  \<open>i1_before\<close>.\<close>

definition west_index :: "arr1 \<Rightarrow> real \<Rightarrow> error + int" where
  "west_index lon1 xmin =
     bindE (first_elem lon1) (\<lambda>l0.
       if xmin = l0 then Inr 0
       else if xmin > l0 then bindE (first_index (\<lambda>v. v > xmin) lon1) (\<lambda>i. Inr (i - 1))
       else Inl (SysExit ''Error (SOSEGrid): not allowed to extend westward''))"

definition east_index :: "arr1 \<Rightarrow> real \<Rightarrow> int \<Rightarrow> error + int" where
  "east_index lonc1 xmax sose_nx =
     bindE (last_elem lonc1) (\<lambda>ln.
       if xmax = ln then Inr sose_nx
       else if xmax < ln then bindE (first_index (\<lambda>v. v > xmax) lonc1) (\<lambda>i. Inr (i + 1))
       else Inl (SysExit ''Error (SOSEGrid): not allowed to extend eastward''))"

text \<open>
  The southern bound (lines 463 to 475): \<open>(j0_before, j0_after)\<close>. The constant
  \<open>sose_res\<close> of constants.py is not among the source files and is a parameter.
  \<open>int(np.ceil(x/0))\<close> raises OverflowError. The chain of three tests has no
  \<open>else\<close>; when none holds (no case over the reals) the attributes stay undefined,
  which fails at the next line that reads them.

  The quotient and its ceiling are those of the reals. The code divides two doubles and
  rounds the quotient before \<open>np.ceil\<close>, so its \<open>j0_after\<close> can differ by one from
  this one: with \<open>sose_res\<close> the double nearest to 1/6, a first latitude -77.5 and
  \<open>ymin = -78\<close> the code has 3, the reals have 4. What is proved below uses of
  \<open>j0_after\<close> only that it is not negative and that nothing is trimmed in the south
  when it is positive; both hold for the code's value as well.
\<close>

definition south_index :: "real \<Rightarrow> arr1 \<Rightarrow> real \<Rightarrow> error + int \<times> int" where
  "south_index sose_res lat1 ymin =
     bindE (first_elem lat1) (\<lambda>l0.
       if ymin = l0 then Inr (0, 0)
       else if ymin > l0 then bindE (first_index (\<lambda>v. v > ymin) lat1) (\<lambda>j. Inr (j - 1, 0))
       else if ymin < l0 then
         (if sose_res = 0 then Inl OverflowError else Inr (0, \<lceil>(l0 - ymin) / sose_res\<rceil>))
       else Inl AttributeError)"

text \<open>The northern bound (lines 477 to 488): \<open>j1_before\<close>.\<close>

definition north_index :: "arr1 \<Rightarrow> real \<Rightarrow> int \<Rightarrow> error + int" where
  "north_index latc1 ymax sose_ny =
     bindE (last_elem latc1) (\<lambda>ln.
       if ymax = ln then Inr sose_ny
       else if ymax < ln then bindE (first_index (\<lambda>v. v > ymax) latc1) (\<lambda>j. Inr (j + 1))
       else Inl (SysExit ''Error (SOSEGrid): not allowed to extend northward''))"

text \<open>The depth (lines 490 to 509): \<open>(k0_after, k1_before, nz)\<close>; \<open>k0_before\<close> is
  0 and \<open>k1_after = k1_before + k0_after\<close>.\<close>

definition depth_index :: "arr1 \<Rightarrow> real \<Rightarrow> real \<Rightarrow> error + int \<times> int \<times> int" where
  "depth_index z1 z_shallow z_deep =
     bindE (first_elem z1) (\<lambda>z0.
       let k0a = (if z_shallow \<le> z0 then 0 else 1) in
     bindE (last_elem z1) (\<lambda>zl.
     bindE (if z_deep > zl then bindE (first_index (\<lambda>v. v < z_deep) z1) (\<lambda>k. Inr (k + 1))
            else Inr (int (length z1))) (\<lambda>k1b.
     bindE (last_elem z1) (\<lambda>zl'.
       Inr (k0a, k1b, (if z_deep < zl' then k1b + k0a + 1 else k1b + k0a))))))"

text \<open>
  The values put in front of a latitude axis (lines 516 and 519):
  \<open>np.flipud(-1*(np.arange(j0_after)+1)*sose_res + base)\<close>. Over the reals
  neighbouring values differ by \<open>sose_res\<close> exactly; the code rounds every product and
  every sum to a double, and its values are spaced by \<open>sose_res\<close> only up to that
  rounding. Nothing that is proved below depends on the spacing.
\<close>

definition lat_extend :: "int \<Rightarrow> real \<Rightarrow> real \<Rightarrow> arr1" where
  "lat_extend j0a sose_res base = rev (map (\<lambda>m. -1 * (real m + 1) * sose_res + base) [0..<nat j0a])"

text \<open>The six checks that the bounds of the model grid are cleared (lines 528 to
  546).\<close>

definition check_bounds :: "arr1 \<Rightarrow> arr1 \<Rightarrow> arr1 \<Rightarrow> real \<Rightarrow> real \<Rightarrow> real \<Rightarrow> real \<Rightarrow> real \<Rightarrow> real \<Rightarrow> error + unit" where
  "check_bounds lonc latc zs xmin xmax ymin ymax z_shallow z_deep =
     bindE (first_elem lonc) (\<lambda>a.
       if a > xmin then Inl (SysExit ''Error (SOSEGrid): western bound not cleared'') else
     bindE (last_elem lonc) (\<lambda>b.
       if b < xmax then Inl (SysExit ''Error (SOSEGrid): eastern bound not cleared'') else
     bindE (first_elem latc) (\<lambda>c.
       if c > ymin then Inl (SysExit ''Error (SOSEGrid): southern bound not cleared'') else
     bindE (last_elem latc) (\<lambda>d.
       if d < ymax then Inl (SysExit ''Error (SOSEGrid): northern bound not cleared'') else
     bindE (first_elem zs) (\<lambda>e.
       if e < z_shallow then Inl (SysExit ''Error (SOSEGrid): shallow bound not cleared'') else
     bindE (last_elem zs) (\<lambda>h.
       if h > z_deep then Inl (SysExit ''Error (SOSEGrid): deep bound not cleared'') else
       Inr ()))))))"

text \<open>The 3D result of \<open>read_field\<close> with the dimensions \<open>xyz\<close>.\<close>

definition read_field_xyz :: "'a sose_align_scheme \<Rightarrow> arr3 \<Rightarrow> real \<Rightarrow> error + arr3" where
  "read_field_xyz g d fill_value =
     bindE (read_field g (A3 d) ''xyz'' fill_value)
       (\<lambda>r. case r of A3 h \<Rightarrow> Inr h | _ \<Rightarrow> Inl ValueError)"

text \<open>
  \<open>SOSEGrid.__init__\<close> with a model grid: the bounds of the model grid, the indices,
  the axes trimmed and extended, the six checks, and the three \<open>hFac\<close> fields read
  through \<open>read_field\<close>.
\<close>

definition sose_trim_extend :: "real \<Rightarrow> sose_files \<Rightarrow> grid \<Rightarrow> nat \<Rightarrow> arr1 \<Rightarrow> arr1 \<Rightarrow> arr1 \<Rightarrow> arr1 \<Rightarrow> arr1 \<Rightarrow> error + sose_grid" where
  "sose_trim_extend sose_res f mg isplit lon1 lonc1 lat1 latc1 z1 =
     (let sose_nx = int (length lon1); sose_ny = int (length lat1) in
     bindE (amin2 (lon_corners_2d mg)) (\<lambda>xmin.
     bindE (amax2 (lon_2d mg)) (\<lambda>xmax.
     bindE (amin2 (lat_corners_2d mg)) (\<lambda>ymin.
     bindE (amax2 (lat_2d mg)) (\<lambda>ymax.
     bindE (first_elem (z mg)) (\<lambda>z_shallow.
     bindE (last_elem (z mg)) (\<lambda>z_deep.
     bindE (west_index lon1 xmin) (\<lambda>i0b.
     bindE (east_index lonc1 xmax sose_nx) (\<lambda>i1b.
     bindE (south_index sose_res lat1 ymin) (\<lambda>(j0b, j0a).
     bindE (north_index latc1 ymax sose_ny) (\<lambda>j1b.
     bindE (depth_index z1 z_shallow z_deep) (\<lambda>(k0a, k1b, nz').
       let i1a = i1b - i0b + 0; j1a = j1b - j0b + j0a; k1a = k1b + k0a;
           al = \<lparr> trim_extend = True, i_split = isplit,
                  i0_before = i0b, i0_after = 0, i1_before = i1b, i1_after = i1a,
                  j0_before = j0b, j0_after = j0a, j1_before = j1b, j1_after = j1a,
                  k0_before = 0, k0_after = k0a, k1_before = k1b, k1_after = k1a,
                  s_nx = i1a, s_ny = j1a, s_nz = nz' \<rparr>;
           lon2 = py_slice i0b i1b lon1;
           lonc2 = py_slice i0b i1b lonc1 in
     bindE (py_get lat1 j0b) (\<lambda>base.
       let lat2 = lat_extend j0a sose_res base @ py_slice j0b j1b lat1 in
     bindE (py_get latc1 j0b) (\<lambda>basec.
       let latc2 = lat_extend j0a sose_res basec @ py_slice j0b j1b latc1 in
     bindE (last_elem (z mg)) (\<lambda>zm1.
     bindE (py_get (z mg) (-2)) (\<lambda>zm2.
       let z2 = replicate (nat k0a) 0 @ py_slice 0 k1b z1 @ replicate (nat (nz' - k1a)) (2 * zm1 - zm2) in
     bindE (check_bounds lonc2 latc2 z2 xmin xmax ymin ymax z_shallow z_deep) (\<lambda>_.
     bindE (read_field_xyz al (SOSE_hFacC f) 0) (\<lambda>h.
     bindE (read_field_xyz al (SOSE_hFacW f) 0) (\<lambda>hw.
     bindE (read_field_xyz al (SOSE_hFacS f) 0) (\<lambda>hs.
       Inr (sose_align.extend al
             (sose_grid.fields lon2 lonc2 lat2 latc2 z2 h hw hs
                (build_land_mask h) (build_land_mask hw) (build_land_mask hs)))))))))))))))))))))))"

text \<open>\<open>SOSEGrid.__init__\<close>. \<open>model_grid=None\<close> means no trimming or extending.\<close>

definition SOSEGrid_init :: "real \<Rightarrow> sose_files \<Rightarrow> grid option \<Rightarrow> int \<Rightarrow> error + sose_grid" where
  "SOSEGrid_init sose_res f model_grid split =
     bindE (sose_max_lon model_grid split) (\<lambda>max_lon.
     bindE (sose_axes f max_lon split) (\<lambda>(isplit, lon1, lonc1, lat1, latc1, z1).
       case model_grid of
         Some mg \<Rightarrow> sose_trim_extend sose_res f mg isplit lon1 lonc1 lat1 latc1 z1
       | None \<Rightarrow>
           Inr \<lparr> trim_extend = False, i_split = isplit,
                 i0_before = 0, i0_after = 0, i1_before = 0, i1_after = 0,
                 j0_before = 0, j0_after = 0, j1_before = 0, j1_after = 0,
                 k0_before = 0, k0_after = 0, k1_before = 0, k1_after = 0,
                 s_nx = int (length lon1), s_ny = int (length lat1), s_nz = int (length z1),
                 s_lon_1d = lon1, s_lon_corners_1d = lonc1, s_lat_1d = lat1,
                 s_lat_corners_1d = latc1, s_z = z1,
                 s_hfac = SOSE_hFacC f, s_hfac_w = SOSE_hFacW f, s_hfac_s = SOSE_hFacS f,
                 s_land_mask = build_land_mask (SOSE_hFacC f),
                 s_land_mask_u = build_land_mask (SOSE_hFacW f),
                 s_land_mask_v = build_land_mask (SOSE_hFacS f) \<rparr>))"

section \<open>SOSEGrid: the accessors\<close>

text \<open>
  \<open>Grid.get_lon_lat(gtype='t', dim=2)\<close> and \<open>SOSEGrid.get_lon_lat(gtype='t', dim=1)\<close>.
  An argument that the caller leaves out is \<open>None\<close> and takes the default of the
  method. The result of the Grid's method is a pair of 1D axes or of 2D arrays.
\<close>

datatype lon_lat = Axes arr1 arr1 | Meshes arr2 arr2

definition Grid_get_lon_lat :: "grid \<Rightarrow> string option \<Rightarrow> int option \<Rightarrow> error + lon_lat" where
  "Grid_get_lon_lat g gtype_arg dim_arg =
     (let gtype = (case gtype_arg of None \<Rightarrow> ''t'' | Some t \<Rightarrow> t);
          dim = (case dim_arg of None \<Rightarrow> 2 | Some d \<Rightarrow> d) in
      if dim = 1 then
        (if gtype \<in> set [''t'', ''w''] then Inr (Axes (lon_1d g) (lat_1d g))
         else if gtype = ''u'' then Inr (Axes (lon_corners_1d g) (lat_1d g))
         else if gtype = ''v'' then Inr (Axes (lon_1d g) (lat_corners_1d g))
         else if gtype = ''psi'' then Inr (Axes (lon_corners_1d g) (lat_corners_1d g))
         else Inl (SysExit (''Error (get_lon_lat): invalid gtype '' @ gtype)))
      else if dim = 2 then
        (if gtype \<in> set [''t'', ''w''] then Inr (Meshes (lon_2d g) (lat_2d g))
         else if gtype = ''u'' then Inr (Meshes (lon_corners_2d g) (lat_2d g))
         else if gtype = ''v'' then Inr (Meshes (lon_2d g) (lat_corners_2d g))
         else if gtype = ''psi'' then Inr (Meshes (lon_corners_2d g) (lat_corners_2d g))
         else Inl (SysExit (''Error (get_lon_lat): invalid gtype '' @ gtype)))
      else Inl (SysExit ''Error (get_lon_lat): dim must be 1 or 2''))"

definition SOSEGrid_get_lon_lat :: "sose_grid \<Rightarrow> string option \<Rightarrow> int option \<Rightarrow> error + lon_lat" where
  "SOSEGrid_get_lon_lat g gtype_arg dim_arg =
     (let gtype = (case gtype_arg of None \<Rightarrow> ''t'' | Some t \<Rightarrow> t);
          dim = (case dim_arg of None \<Rightarrow> 1 | Some d \<Rightarrow> d) in
      if dim \<noteq> 1 then Inl (SysExit ''Error (get_lon_lat): must have dim=1 for SOSE grid'')
      else if gtype \<in> set [''t'', ''w''] then Inr (Axes (s_lon_1d g) (s_lat_1d g))
      else if gtype = ''u'' then Inr (Axes (s_lon_corners_1d g) (s_lat_1d g))
      else if gtype = ''v'' then Inr (Axes (s_lon_1d g) (s_lat_corners_1d g))
      else if gtype = ''psi'' then Inr (Axes (s_lon_corners_1d g) (s_lat_corners_1d g))
      else Inl (SysExit (''Error (get_lon_lat): invalid gtype '' @ gtype)))"

text \<open>\<open>SOSEGrid.get_ice_mask\<close> and \<open>SOSEGrid.get_fris_mask\<close>: a message and
  \<open>sys.exit()\<close>, whatever the object and the grid type.\<close>

definition SOSEGrid_get_ice_mask :: "sose_grid \<Rightarrow> string option \<Rightarrow> error + mask" where
  "SOSEGrid_get_ice_mask g gtype_arg = Inl (SysExit ''Error (SOSEGrid): no ice shelves to mask'')"

definition SOSEGrid_get_fris_mask :: "sose_grid \<Rightarrow> string option \<Rightarrow> error + mask" where
  "SOSEGrid_get_fris_mask g gtype_arg = Inl (SysExit ''Error (SOSEGrid): no ice shelves to mask'')"

section \<open>Example inputs for the SOSEGrid\<close>

text \<open>
  A source grid of 8 longitudes (in the range from 0 to 360, as SOSE has them), 6
  latitudes at the resolution 1/2 and 2 depths, with \<open>hFac\<close> 1 everywhere. The target
  is the example Grid above, which lies further south and reaches higher and deeper, so
  that the source is trimmed in longitude and in the north, and extended to the south,
  at the top and at the bottom. \<open>example_align\<close>, \<open>example_hfac_read\<close> and
  \<open>example_sose_result\<close> spell out the object that the constructor returns.
\<close>

definition example_sose_files :: sose_files where
  "example_sose_files =
     \<lparr> XC = replicate 6 [10, 170, 310, 312, 314, 316, 318, 350],
       XG = replicate 6 [5, 160, 309, 311, 313, 315, 317, 349],
       YC = map (replicate 8) [-155/2, -77, -153/2, -76, -151/2, -75],
       YG = map (replicate 8) [-311/4, -309/4, -307/4, -305/4, -303/4, -301/4],
       RC = [-10, -20],
       SOSE_hFacC = replicate 2 (replicate 6 (replicate 8 1)),
       SOSE_hFacW = replicate 2 (replicate 6 (replicate 8 1)),
       SOSE_hFacS = replicate 2 (replicate 6 (replicate 8 1)) \<rparr>"

definition example_align :: sose_align where
  "example_align = \<lparr> trim_extend = True, i_split = 2,
             i0_before = 1, i0_after = 0, i1_before = 6, i1_after = 5,
             j0_before = 0, j0_after = 4, j1_before = 5, j1_after = 9,
             k0_before = 0, k0_after = 1, k1_before = 2, k1_after = 3,
             s_nx = 5, s_ny = 9, s_nz = 4 \<rparr>"

definition example_hfac_read :: arr3 where
  "example_hfac_read =
     [replicate 9 (replicate 5 0),
      replicate 4 (replicate 5 0) @ replicate 5 (replicate 5 1),
      replicate 4 (replicate 5 0) @ replicate 5 (replicate 5 1),
      replicate 9 (replicate 5 0)]"

definition example_sose_result :: sose_grid where
  "example_sose_result =
     sose_align.extend example_align
       (sose_grid.fields [-48, -46, -44, -42, -10] [-49, -47, -45, -43, -11]
          [-159/2, -79, -157/2, -78, -155/2, -77, -153/2, -76, -151/2]
          [-319/4, -317/4, -315/4, -313/4, -311/4, -309/4, -307/4, -305/4, -303/4]
          [0, -10, -20, -35]
          example_hfac_read example_hfac_read example_hfac_read
          (build_land_mask example_hfac_read) (build_land_mask example_hfac_read)
          (build_land_mask example_hfac_read))"

definition example_sose_grid :: sose_grid where
  "example_sose_grid = projr (SOSEGrid_init (1/2) example_sose_files (Some example_grid) 180)"

section \<open>The aligned field as the claim words it\<close>

text \<open>
  Claim C8 describes the array that \<open>read_field\<close> returns: inside the window of the
  "after" indices it is the source data, rotated in longitude, at the corresponding
  "before" indices, and outside the window it is the fill value. \<open>claim_window2\<close> and
  \<open>claim_window3\<close> are the value that the claim gives to the point \<open>(j, i)\<close> and
  \<open>(k, j, i)\<close>; \<open>claim_aligned2\<close> and \<open>claim_aligned3\<close> say that an array has the
  aligned shape and these values. They follow the words of the claim; \<open>read_field\<close>
  above follows the source.
\<close>

definition claim_window2 :: "'a sose_align_scheme \<Rightarrow> arr2 \<Rightarrow> real \<Rightarrow> nat \<Rightarrow> nat \<Rightarrow> real" where
  "claim_window2 g rotated fill_value j i =
     (if j0_after g \<le> int j \<and> int j < j1_after g \<and> i0_after g \<le> int i \<and> int i < i1_after g
      then rotated ! nat (int j - j0_after g + j0_before g) ! nat (int i - i0_after g + i0_before g)
      else fill_value)"

definition claim_window3 :: "'a sose_align_scheme \<Rightarrow> arr3 \<Rightarrow> real \<Rightarrow> nat \<Rightarrow> nat \<Rightarrow> nat \<Rightarrow> real" where
  "claim_window3 g rotated fill_value k j i =
     (if k0_after g \<le> int k \<and> int k < k1_after g \<and> j0_after g \<le> int j \<and> int j < j1_after g
         \<and> i0_after g \<le> int i \<and> int i < i1_after g
      then rotated ! nat (int k - k0_after g + k0_before g) ! nat (int j - j0_after g + j0_before g)
             ! nat (int i - i0_after g + i0_before g)
      else fill_value)"

definition claim_aligned2 :: "'a sose_align_scheme \<Rightarrow> arr2 \<Rightarrow> real \<Rightarrow> arr2 \<Rightarrow> bool" where
  "claim_aligned2 g file_data fill_value r =
     (shape2 r (nat (s_ny g)) (nat (s_nx g)) \<and>
      (\<forall>j<nat (s_ny g). \<forall>i<nat (s_nx g).
         r ! j ! i = claim_window2 g (split_longitude2 file_data (i_split g)) fill_value j i))"

definition claim_aligned3 :: "'a sose_align_scheme \<Rightarrow> arr3 \<Rightarrow> real \<Rightarrow> arr3 \<Rightarrow> bool" where
  "claim_aligned3 g file_data fill_value r =
     (shape3 r (nat (s_nz g)) (nat (s_ny g)) (nat (s_nx g)) \<and>
      (\<forall>k<nat (s_nz g). \<forall>j<nat (s_ny g). \<forall>i<nat (s_nx g).
         r ! k ! j ! i = claim_window3 g (split_longitude3 file_data (i_split g)) fill_value k j i))"

text \<open>The relations among the indices of a SOSEGrid that was constructed from source
  files with \<open>snz\<close> depths, \<open>sny\<close> latitudes and \<open>snx\<close> longitudes.\<close>

definition aligned :: "'a sose_align_scheme \<Rightarrow> nat \<Rightarrow> nat \<Rightarrow> nat \<Rightarrow> bool" where
  "aligned g snz sny snx =
     (trim_extend g
      \<and> 0 \<le> i0_before g \<and> i0_before g < i1_before g \<and> i1_before g \<le> int snx
      \<and> i0_after g = 0 \<and> i1_after g = i1_before g - i0_before g \<and> s_nx g = i1_after g
      \<and> 0 \<le> j0_before g \<and> j0_before g \<le> j1_before g \<and> j1_before g \<le> int sny
      \<and> 0 \<le> j0_after g \<and> j1_after g = j1_before g - j0_before g + j0_after g \<and> s_ny g = j1_after g
      \<and> k0_before g = 0 \<and> 0 \<le> k0_after g \<and> 0 \<le> k1_before g \<and> k1_before g \<le> int snz
      \<and> k1_after g = k1_before g + k0_after g \<and> k1_after g \<le> s_nz g)"

text \<open>A 2D field of the shape of the example source grid, with the value \<open>10 * j + i\<close>
  at the point \<open>(j, i)\<close>.\<close>

definition example_field :: arr2 where
  "example_field =
     [[0, 1, 2, 3, 4, 5, 6, 7], [10, 11, 12, 13, 14, 15, 16, 17], [20, 21, 22, 23, 24, 25, 26, 27],
      [30, 31, 32, 33, 34, 35, 36, 37], [40, 41, 42, 43, 44, 45, 46, 47], [50, 51, 52, 53, 54, 55, 56, 57]]"


section \<open>Elementwise operations on arrays of one shape\<close>

lemma shape2_row: "shape2 a n m \<Longrightarrow> j < n \<Longrightarrow> length (a ! j) = m"
  by (simp add: shape2_def list_all_length)

lemma shape3_layer: "shape3 a l n m \<Longrightarrow> k < l \<Longrightarrow> shape2 (a ! k) n m"
  by (simp add: shape3_def list_all_length)

lemma shape2_map2:
  "shape2 a n m \<Longrightarrow> shape2 b n m \<Longrightarrow> shape2 (map2 (map2 f) a b) n m"
  by (auto simp: shape2_def list_all_length)

lemma map2_map2_at:
  "shape2 a n m \<Longrightarrow> shape2 b n m \<Longrightarrow> j < n \<Longrightarrow> i < m \<Longrightarrow>
   map2 (map2 f) a b ! j ! i = f (a ! j ! i) (b ! j ! i)"
  by (auto simp: shape2_def list_all_length)

lemma shape2_map: "shape2 (map (map f) a) n m = shape2 a n m"
  by (auto simp: shape2_def list_all_length)

lemma map_map_at: "shape2 a n m \<Longrightarrow> j < n \<Longrightarrow> i < m \<Longrightarrow> map (map f) a ! j ! i = f (a ! j ! i)"
  by (auto simp: shape2_def list_all_length)

section \<open>The sum over depth\<close>

lemma fold_add_shape:
  "shape2 acc n m \<Longrightarrow> list_all (\<lambda>x. shape2 x n m) ls \<Longrightarrow>
   shape2 (fold (\<lambda>x acc. map2 (map2 (+)) acc x) ls acc) n m"
  by (induction ls arbitrary: acc) (simp_all add: shape2_map2)

lemma fold_add_at:
  "shape2 (acc::arr2) n m \<Longrightarrow> list_all (\<lambda>x. shape2 x n m) ls \<Longrightarrow> j < n \<Longrightarrow> i < m \<Longrightarrow>
   fold (\<lambda>x acc. map2 (map2 (+)) acc x) ls acc ! j ! i = acc ! j ! i + sum_list (map (\<lambda>l. l ! j ! i) ls)"
  by (induction ls arbitrary: acc) (simp_all add: shape2_map2 map2_map2_at)

lemma sum_axis0_shape: "shape3 a l n m \<Longrightarrow> 0 < l \<Longrightarrow> shape2 (sum_axis0 a) n m"
  by (cases a) (auto simp: sum_axis0_def shape3_def fold_add_shape)

lemma sum_axis0_at:
  "shape3 a l n m \<Longrightarrow> 0 < l \<Longrightarrow> j < n \<Longrightarrow> i < m \<Longrightarrow>
   sum_axis0 a ! j ! i = sum_list (map (\<lambda>x. x ! j ! i) a)"
  by (cases a) (auto simp: sum_axis0_def shape3_def fold_add_at)

lemma sum_list_nonneg_zero:
  "(\<And>x. x \<in> set xs \<Longrightarrow> 0 \<le> (x::real)) \<Longrightarrow> sum_list xs = 0 \<longleftrightarrow> (\<forall>x\<in>set xs. x = 0)"
  by (simp add: sum_list_nonneg_eq_0_iff)

lemma sum_list_nth_sum: "sum_list (map f a) = (\<Sum>k<length a. f (a ! k))"
  by (simp add: sum_list_sum_nth atLeast0LessThan)

section \<open>The land mask\<close>

text \<open>
  Claim C5. For an array \<open>hf\<close> of shape \<open>(l, n, m)\<close> with at least one layer, whose
  column at the point \<open>(j, i)\<close> has its entries between 0 and 1, the land mask of
  \<open>build_land_mask\<close> is true at \<open>(j, i)\<close> exactly when the sum of the column is zero,
  and exactly one of "land-masked" and "some entry of the column is not zero" holds.
  \<open>Grid.__init__\<close> applies this one function to \<open>hfac\<close>, \<open>hfac_w\<close> and \<open>hfac_s\<close>.
\<close>

theorem land_mask_iff:
  assumes "shape3 hf l n m" "0 < l" "j < n" "i < m"
      and "\<forall>k<l. 0 \<le> hf ! k ! j ! i \<and> hf ! k ! j ! i \<le> 1"
  shows "(build_land_mask hf ! j ! i \<longleftrightarrow> (\<Sum>k<l. hf ! k ! j ! i) = 0)
       \<and> (build_land_mask hf ! j ! i \<noteq> (\<exists>k<l. hf ! k ! j ! i \<noteq> 0))"
proof -
  have len: "length hf = l" using assms(1) by (simp add: shape3_def)
  have "build_land_mask hf ! j ! i = (sum_axis0 hf ! j ! i = 0)"
    unfolding build_land_mask_def
    by (rule map_map_at[OF sum_axis0_shape[OF assms(1,2)] assms(3,4)])
  then have m: "build_land_mask hf ! j ! i = (sum_list (map (\<lambda>x. x ! j ! i) hf) = 0)"
    by (simp only: sum_axis0_at[OF assms(1,2,3,4)])
  have s: "sum_list (map (\<lambda>x. x ! j ! i) hf) = (\<Sum>k<l. hf ! k ! j ! i)"
    using len by (simp add: sum_list_nth_sum)
  have nn: "\<And>x. x \<in> set (map (\<lambda>x. x ! j ! i) hf) \<Longrightarrow> 0 \<le> x"
    using assms(5) len by (auto simp: in_set_conv_nth)
  have "(sum_list (map (\<lambda>x. x ! j ! i) hf) = 0) = (\<forall>x\<in>set (map (\<lambda>x. x ! j ! i) hf). x = 0)"
    by (rule sum_list_nonneg_zero[OF nn])
  also have "\<dots> = (\<forall>k<l. hf ! k ! j ! i = 0)"
    using len by (auto simp: all_set_conv_all_nth)
  finally have z: "(sum_list (map (\<lambda>x. x ! j ! i) hf) = 0) = (\<forall>k<l. hf ! k ! j ! i = 0)" .
  have a: "build_land_mask hf ! j ! i \<longleftrightarrow> (\<Sum>k<l. hf ! k ! j ! i) = 0"
    by (simp only: m s)
  have b: "build_land_mask hf ! j ! i \<longleftrightarrow> (\<forall>k<l. hf ! k ! j ! i = 0)"
    by (simp only: m z)
  have c: "build_land_mask hf ! j ! i \<noteq> (\<exists>k<l. hf ! k ! j ! i \<noteq> 0)"
    using b by auto
  show ?thesis using a c by (rule conjI)
qed

text \<open>A field of two layers, one row and two points: the first column is wet (0.5 over
  1), the second is dry.\<close>

theorem land_mask_iff_witness:
  "shape3 [[[1/2, 0]], [[1, 0::real]]] 2 1 2
   \<and> [[[1/2, 0]], [[1, 0::real]]] ! 0 ! 0 ! 1 = 0
   \<and> [[[1/2, 0]], [[1, 0::real]]] ! 1 ! 0 ! 1 = 0
   \<and> build_land_mask [[[1/2, 0]], [[1, 0]]] ! 0 ! 1
   \<and> \<not> (\<exists>k<2. [[[1/2, 0]], [[1, 0::real]]] ! k ! 0 ! 1 \<noteq> 0)"
proof -
  have sh: "shape3 [[[1/2, 0]], [[1, 0::real]]] 2 1 2"
    by (simp add: shape3_def shape2_def)
  have col: "\<forall>k<2. 0 \<le> [[[1/2, 0]], [[1, 0::real]]] ! k ! 0 ! 1 \<and> [[[1/2, 0]], [[1, 0::real]]] ! k ! 0 ! 1 \<le> 1"
    by (simp add: numeral_2_eq_2 All_less_Suc)
  have dry: "\<not> (\<exists>k<2. [[[1/2, 0]], [[1, 0::real]]] ! k ! 0 ! 1 \<noteq> 0)"
    by (simp add: numeral_2_eq_2 Ex_less_Suc)
  have "build_land_mask [[[1/2, 0]], [[1, 0]]] ! 0 ! 1"
    using land_mask_iff[OF sh _ _ _ col] dry by simp
  then show ?thesis using sh dry by simp
qed

section \<open>Grid: what a successful construction has computed\<close>

lemma bindE_Inr: "bindE m f = Inr y \<longleftrightarrow> (\<exists>x. m = Inr x \<and> f x = Inr y)"
  by (cases m) (simp_all add: bindE_def)

lemma fix_lon_range_Inr: "fix_lon_range lon ml = Inr r \<longleftrightarrow> (\<exists>m. ml = Some m \<and> r = map (fix_lon_val m) lon)"
  by (cases ml) (auto simp: fix_lon_range_def)

lemma fix_lon_range2_Inr: "fix_lon_range2 lon ml = Inr r \<longleftrightarrow> (\<exists>m. ml = Some m \<and> r = map (map (fix_lon_val m)) lon)"
  by (cases ml) (auto simp: fix_lon_range2_def)

lemma Grid_init_Inr:
  assumes "Grid_init cs f x m0 = Inr g"
  shows "\<exists>lon2 lat2 lonc2 latc2 lon1 lat1 lonc1 latc1 m lon1a dr im imu imv.
      make_axes (XYC f) = Inr ((lon2, lat2, lonc2, latc2), (lon1, lat1, lonc1, latc1))
    \<and> choose_max_lon x m0 lon1 = Inr (Some m, lon1a)
    \<and> calc_draft (length lat1) (length lon1a) (length (Z f)) (Zp1 f) (drF f) (hFacC f) = Inr dr
    \<and> build_ice_mask (hFacC f) = Inr im
    \<and> build_ice_mask (hFacW f) = Inr imu
    \<and> build_ice_mask (hFacS f) = Inr imv
    \<and> g = \<lparr> lon_2d = map (map (fix_lon_val m)) lon2, lat_2d = lat2,
             lon_corners_2d = map (map (fix_lon_val m)) lonc2, lat_corners_2d = latc2,
             lon_1d = map (fix_lon_val m) lon1a, lat_1d = lat1,
             lon_corners_1d = map (fix_lon_val m) lonc1, lat_corners_1d = latc1,
             z = Z f, z_edges = Zp1 f, dz = drF f,
             hfac = hFacC f, hfac_w = hFacW f, hfac_s = hFacS f, wct = Depth f,
             nx = length lon1a, ny = length lat1, nz = length (Z f),
             draft = dr, bathy = arr2_sub dr (Depth f),
             land_mask = build_land_mask (hFacC f), land_mask_u = build_land_mask (hFacW f),
             land_mask_v = build_land_mask (hFacS f),
             ice_mask = im, ice_mask_u = imu, ice_mask_v = imv,
             fris_mask = build_fris_mask (fris_bounds cs) im (map (map (fix_lon_val m)) lon2) lat2,
             fris_mask_u = build_fris_mask (fris_bounds cs) imu (map (map (fix_lon_val m)) lonc2) lat2,
             fris_mask_v = build_fris_mask (fris_bounds cs) imv (map (map (fix_lon_val m)) lon2) latc2,
             ewed_mask = build_ewed_mask (ewed_bounds cs) im (map (map (fix_lon_val m)) lon2) lat2,
             sws_shelf_mask = build_sws_shelf_mask (sws_shelf_bounds cs) (build_land_mask (hFacC f)) im
                 (map (map (fix_lon_val m)) lon2) lat2 (arr2_sub dr (Depth f)) \<rparr>"
  using assms
  by (auto simp: Grid_init_def bindE_Inr fix_lon_range_Inr fix_lon_range2_Inr Let_def split: prod.splits)


section \<open>Grid: the draft and the bathymetry\<close>

lemma draft_layer_shape:
  "shape2 d n m \<Longrightarrow> shape2 (hf ! k) n m \<Longrightarrow> shape2 (draft_layer ze dzs hf k d) n m"
  unfolding draft_layer_def by (rule shape2_map2)

lemma draft_layer_at:
  "shape2 d n m \<Longrightarrow> shape2 (hf ! k) n m \<Longrightarrow> j < n \<Longrightarrow> i < m \<Longrightarrow>
   draft_layer ze dzs hf k d ! j ! i =
     (if hf ! k ! j ! i \<noteq> 0 \<and> d ! j ! i = None then Some (ze ! k - dzs ! k * (1 - hf ! k ! j ! i))
      else d ! j ! i)"
  unfolding draft_layer_def by (simp add: map2_map2_at)

lemma draft_loop_at:
  "draft_loop ze dzs hf ks d = Inr d' \<Longrightarrow> shape2 d n m \<Longrightarrow> \<forall>k\<in>set ks. shape2 (hf ! k) n m \<Longrightarrow>
   j < n \<Longrightarrow> i < m \<Longrightarrow>
   shape2 d' n m \<and>
   d' ! j ! i = (case d ! j ! i of Some v \<Rightarrow> Some v
                 | None \<Rightarrow> (case find (\<lambda>k. hf ! k ! j ! i \<noteq> 0) ks of None \<Rightarrow> None
                            | Some k \<Rightarrow> Some (ze ! k - dzs ! k * (1 - hf ! k ! j ! i))))"
proof (induction ks arbitrary: d)
  case Nil
  then show ?case by (simp split: option.splits)
next
  case (Cons k ks)
  from Cons.prems(1) have run: "draft_loop ze dzs hf ks (draft_layer ze dzs hf k d) = Inr d'"
    by (simp split: if_splits)
  have shk: "shape2 (hf ! k) n m" using Cons.prems(3) by simp
  have sh: "shape2 (draft_layer ze dzs hf k d) n m"
    by (rule draft_layer_shape[OF Cons.prems(2) shk])
  have rest: "\<forall>k\<in>set ks. shape2 (hf ! k) n m" using Cons.prems(3) by simp
  note ih = Cons.IH[OF run sh rest Cons.prems(4,5)]
  note at = draft_layer_at[OF Cons.prems(2) shk Cons.prems(4,5), of ze dzs]
  show ?case using ih at by (auto split: option.splits)
qed

lemma shape2_replicate: "shape2 (replicate n (replicate m v)) n m"
  by (simp add: shape2_def list_all_length)

lemma calc_draft_at:
  assumes "calc_draft n m l ze dzs hf = Inr dr" "\<forall>k<l. shape2 (hf ! k) n m" "j < n" "i < m"
  shows "shape2 dr n m \<and>
         dr ! j ! i = (case find (\<lambda>k. hf ! k ! j ! i \<noteq> 0) [0..<l] of None \<Rightarrow> 0
                       | Some k \<Rightarrow> ze ! k - dzs ! k * (1 - hf ! k ! j ! i))"
proof -
  from assms(1) obtain d' where
    run: "draft_loop ze dzs hf [0..<l] (replicate n (replicate m None)) = Inr d'"
    and dr: "dr = map (map (\<lambda>d. case d of None \<Rightarrow> 0 | Some v \<Rightarrow> v)) d'"
    by (auto simp: calc_draft_def bindE_Inr)
  have sh: "\<forall>k\<in>set [0..<l]. shape2 (hf ! k) n m" using assms(2) by simp
  note r = draft_loop_at[OF run shape2_replicate sh assms(3,4)]
  have init: "replicate n (replicate m (None::real option)) ! j ! i = None"
    using assms(3,4) by simp
  have s: "shape2 dr n m" using r dr by (simp add: shape2_map)
  have sd: "shape2 d' n m" using r by simp
  have "dr ! j ! i = (case d' ! j ! i of None \<Rightarrow> 0 | Some v \<Rightarrow> v)"
    unfolding dr by (rule map_map_at[OF sd assms(3,4)])
  then show ?thesis using r s init by (simp split: option.splits)
qed

lemma find_upt_None: "find P [0..<l] = None \<longleftrightarrow> (\<forall>k<l. \<not> P k)"
  by (simp add: find_None_iff)

lemma find_upt_Some: "find P [0..<l] = Some k \<longleftrightarrow> (k < l \<and> P k \<and> (\<forall>k'<k. \<not> P k'))"
  by (auto simp: find_Some_iff)

lemma shape3_layers: "shape3 a l n m \<Longrightarrow> \<forall>k<l. shape2 (a ! k) n m"
  by (simp add: shape3_def list_all_length)

text \<open>
  Claim C1. In a constructed Grid whose \<open>hfac\<close> has the shape \<open>(nz, ny, nx)\<close>, the draft
  at a point \<open>(j, i)\<close> is 0 when \<open>hfac\<close> is zero in every layer of the column, and is
  \<open>z_edges[k] - dz[k]*(1-hfac[k,j,i])\<close> for the topmost layer \<open>k\<close> of the column where
  \<open>hfac\<close> is not zero (the layer with \<open>hfac \<noteq> 0\<close> above which every layer has
  \<open>hfac = 0\<close>).
\<close>

theorem draft_topmost_wet:
  assumes "Grid_init cs f x m0 = Inr g"
      and "shape3 (hfac g) (nz g) (ny g) (nx g)" "j < ny g" "i < nx g"
  shows "((\<forall>k<nz g. hfac g ! k ! j ! i = 0) \<longrightarrow> draft g ! j ! i = 0)
       \<and> (\<forall>k<nz g. hfac g ! k ! j ! i \<noteq> 0 \<and> (\<forall>k'<k. hfac g ! k' ! j ! i = 0)
            \<longrightarrow> draft g ! j ! i = z_edges g ! k - dz g ! k * (1 - hfac g ! k ! j ! i))"
proof -
  from Grid_init_Inr[OF assms(1)]
  have cd: "calc_draft (ny g) (nx g) (nz g) (z_edges g) (dz g) (hfac g) = Inr (draft g)"
    by auto
  note at = calc_draft_at[OF cd shape3_layers[OF assms(2)] assms(3,4)]
  let ?P = "\<lambda>k. hfac g ! k ! j ! i \<noteq> 0"
  have dry: "(\<forall>k<nz g. hfac g ! k ! j ! i = 0) \<longrightarrow> draft g ! j ! i = 0"
  proof
    assume "\<forall>k<nz g. hfac g ! k ! j ! i = 0"
    then have "find ?P [0..<nz g] = None" by (simp add: find_upt_None)
    then show "draft g ! j ! i = 0" using at by simp
  qed
  have wet: "\<forall>k<nz g. ?P k \<and> (\<forall>k'<k. hfac g ! k' ! j ! i = 0)
            \<longrightarrow> draft g ! j ! i = z_edges g ! k - dz g ! k * (1 - hfac g ! k ! j ! i)"
  proof (intro allI impI)
    fix k assume k: "k < nz g" and h: "?P k \<and> (\<forall>k'<k. hfac g ! k' ! j ! i = 0)"
    then have "find ?P [0..<nz g] = Some k" by (simp add: find_upt_Some)
    then show "draft g ! j ! i = z_edges g ! k - dz g ! k * (1 - hfac g ! k ! j ! i)"
      using at by simp
  qed
  show ?thesis using dry wet by (rule conjI)
qed

text \<open>
  Claim C4. In a constructed Grid whose \<open>hfac\<close> and \<open>wct\<close> have the shapes
  \<open>(nz, ny, nx)\<close> and \<open>(ny, nx)\<close>, \<open>bathy = draft - wct\<close> holds at every point \<open>(j, i)\<close>.
\<close>

theorem bathy_is_draft_minus_wct:
  assumes "Grid_init cs f x m0 = Inr g"
      and "shape3 (hfac g) (nz g) (ny g) (nx g)" "shape2 (wct g) (ny g) (nx g)"
      and "j < ny g" "i < nx g"
  shows "bathy g ! j ! i = draft g ! j ! i - wct g ! j ! i"
proof -
  from Grid_init_Inr[OF assms(1)]
  have cd: "calc_draft (ny g) (nx g) (nz g) (z_edges g) (dz g) (hfac g) = Inr (draft g)"
    and b: "bathy g = arr2_sub (draft g) (wct g)"
    by auto
  have sh: "shape2 (draft g) (ny g) (nx g)"
    using calc_draft_at[OF cd shape3_layers[OF assms(2)] assms(4,5)] by simp
  show ?thesis unfolding b arr2_sub_def by (rule map2_map2_at[OF sh assms(3,4,5)])
qed

section \<open>Grid: the longitude axis\<close>

lemma fix_lon_val_shift:
  assumes "m - 360 < x - 360 * of_int k" "x - 360 * of_int k \<le> m"
  shows "fix_lon_val m x = x - 360 * of_int k"
proof -
  have "\<lceil>(x - m) / 360\<rceil> = k"
    by (rule ceiling_unique) (use assms in \<open>simp_all add: field_simps\<close>)
  then show ?thesis by (simp add: fix_lon_val_def)
qed

lemma fix_lon_val_id: "m - 360 < x \<Longrightarrow> x \<le> m \<Longrightarrow> fix_lon_val m x = x"
  using fix_lon_val_shift[of m x 0] by simp

lemma fix_lon_val_range: "m - 360 < fix_lon_val m x \<and> fix_lon_val m x \<le> m"
proof -
  define c :: real where "c = of_int \<lceil>(x - m) / 360\<rceil>"
  have "c - 1 < (x - m) / 360 \<and> (x - m) / 360 \<le> c"
    unfolding c_def by (rule ceiling_correct)
  then have "360 * (c - 1) < x - m \<and> x - m \<le> 360 * c"
    by (simp add: field_simps)
  then have "m - 360 < x - 360 * c \<and> x - 360 * c \<le> m"
    by (simp add: algebra_simps)
  then show ?thesis unfolding fix_lon_val_def c_def .
qed

lemma fix_lon_val_idem: "fix_lon_val m (fix_lon_val m x) = fix_lon_val m x"
  by (rule fix_lon_val_id) (simp_all add: fix_lon_val_range)

lemma choose_max_lon_auto:
  assumes "choose_max_lon True None lon1 = Inr (ml, lon1a)"
  shows "\<exists>m. ml = Some m \<and> lon1a = map (fix_lon_val m) lon1 \<and> strictly_increasing lon1a"
  using assms
  by (auto simp: choose_max_lon_def bindE_Inr fix_lon_range_Inr Let_def split: if_splits)

lemma choose_max_lon_length:
  "choose_max_lon x m0 lon1 = Inr (ml, lon1a) \<Longrightarrow> length lon1a = length lon1"
  by (auto simp: choose_max_lon_def bindE_Inr fix_lon_range_Inr Let_def split: if_splits)

text \<open>
  Claim C3, as amended. When \<open>x_is_lon\<close> holds and \<open>max_lon\<close> is not supplied (it is
  \<open>None\<close> and the range is chosen by the constructor), a Grid is constructed only with
  a strictly increasing centre-longitude axis \<open>lon_1d\<close>: otherwise \<open>Grid.__init__\<close>
  exits. The check stands inside \<open>if max_lon is None and x_is_lon\<close>; with a
  \<open>max_lon\<close> supplied by the caller it is not made (see the counterexample below).
\<close>

theorem auto_max_lon_strictly_increasing:
  assumes "Grid_init cs f True None = Inr g"
  shows "strictly_increasing (lon_1d g)"
proof -
  from Grid_init_Inr[OF assms] obtain lon1 m lon1a where
    c: "choose_max_lon True None lon1 = Inr (Some m, lon1a)" and l: "lon_1d g = map (fix_lon_val m) lon1a"
    by auto
  from choose_max_lon_auto[OF c] have e: "lon1a = map (fix_lon_val m) lon1" and s: "strictly_increasing lon1a"
    by auto
  have "lon_1d g = lon1a" unfolding l by (subst (1 2) e) (simp add: fix_lon_val_idem)
  then show ?thesis using s by simp
qed

section \<open>The example grids, evaluated\<close>

lemmas eval_Grid = Grid_init_def bindE_def make_axes_def meshgrid_def
      choose_max_lon_def amin_def amax_def fix_lon_range_def fix_lon_range2_def
      strictly_increasing_def np_diff_def calc_draft_def draft_layer_def build_ice_mask_def
      sum_axis0_def numeral_eq_Suc upt_rec Let_def

lemma example_constructed: "\<exists>g. Grid_init example_constants example_files True None = Inr g"
  by (simp add: eval_Grid example_files_def example_constants_def fix_lon_val_id)

lemma dateline_constructed: "\<not> isl (Grid_init example_constants dateline_files True (Some 180))"
  by (simp add: eval_Grid dateline_files_def example_constants_def)

lemma dateline_lon_1d: "lon_1d (projr (Grid_init example_constants dateline_files True (Some 180))) = [170, -170]"
  using fix_lon_val_shift[of 180 190 1] 
  by (simp add: eval_Grid dateline_files_def example_constants_def fix_lon_val_id)

text \<open>
  Claim C3 as stated fails: with \<open>max_lon = 180\<close> supplied by the caller, the grid with
  the centre longitudes 170 and 190 is constructed, and its normalised axis
  \<open>[170, -170]\<close> is not strictly increasing. (\<open>grid_check_split\<close> relies on this: it
  builds the Grid with a \<open>max_lon\<close> and then compares the two ends of \<open>lon_1d\<close>.)
\<close>

theorem supplied_max_lon_not_checked:
  "\<not> isl (Grid_init example_constants dateline_files True (Some 180))
   \<and> \<not> strictly_increasing (lon_1d (projr (Grid_init example_constants dateline_files True (Some 180))))"
  using dateline_constructed by (simp add: dateline_lon_1d strictly_increasing_def np_diff_def)

theorem auto_max_lon_strictly_increasing_witness:
  "\<not> isl (Grid_init example_constants example_files True None)
   \<and> strictly_increasing (lon_1d (projr (Grid_init example_constants example_files True None)))"
proof -
  from example_constructed obtain g where ok: "Grid_init example_constants example_files True None = Inr g"
    by blast
  show ?thesis using auto_max_lon_strictly_increasing[OF ok] by (simp add: ok)
qed

section \<open>Grid: the FRIS mask\<close>

lemma in_bounds_at:
  "shape2 lon n m \<Longrightarrow> shape2 lat n m \<Longrightarrow> j < n \<Longrightarrow> i < m \<Longrightarrow>
   in_bounds b lon lat ! j ! i =
     (lon ! j ! i \<ge> b ! 0 \<and> lon ! j ! i \<le> b ! 1 \<and> lat ! j ! i \<ge> b ! 2 \<and> lat ! j ! i \<le> b ! 3)"
  unfolding in_bounds_def by (rule map2_map2_at)

lemma in_bounds_shape: "shape2 lon n m \<Longrightarrow> shape2 lat n m \<Longrightarrow> shape2 (in_bounds b lon lat) n m"
  unfolding in_bounds_def by (rule shape2_map2)

lemma mask_and_at:
  "shape2 a n m \<Longrightarrow> shape2 b n m \<Longrightarrow> j < n \<Longrightarrow> i < m \<Longrightarrow>
   mask_and a b ! j ! i = (a ! j ! i \<and> b ! j ! i)"
  unfolding mask_and_def by (rule map2_map2_at)

lemma mask_and_shape: "shape2 a n m \<Longrightarrow> shape2 b n m \<Longrightarrow> shape2 (mask_and a b) n m"
  unfolding mask_and_def by (rule shape2_map2)

lemma set_true_at:
  "shape2 ix n m \<Longrightarrow> shape2 v n m \<Longrightarrow> j < n \<Longrightarrow> i < m \<Longrightarrow>
   set_true ix v ! j ! i = (ix ! j ! i \<or> v ! j ! i)"
  unfolding set_true_def by (simp add: map2_map2_at)

lemma set_true_shape: "shape2 ix n m \<Longrightarrow> shape2 v n m \<Longrightarrow> shape2 (set_true ix v) n m"
  unfolding set_true_def by (rule shape2_map2)

lemma build_fris_mask_at:
  assumes im: "shape2 im n m" and lon: "shape2 lon n m" and lat: "shape2 lat n m"
      and j: "j < n" and i: "i < m"
  shows "build_fris_mask fb im lon lat ! j ! i =
     (im ! j ! i \<and>
       ((fb ! 0 \<le> lon ! j ! i \<and> lon ! j ! i \<le> -45 \<and> fb ! 2 \<le> lat ! j ! i \<and> lat ! j ! i \<le> -74.7)
      \<or> (-45 \<le> lon ! j ! i \<and> lon ! j ! i \<le> fb ! 1 \<and> fb ! 2 \<le> lat ! j ! i \<and> lat ! j ! i \<le> -77.85)))"
proof -
  let ?A = "[fb ! 0, -45, fb ! 2, -74.7]" and ?B = "[-45, fb ! 1, fb ! 2, -77.85]"
  let ?z = "map (map (\<lambda>_. False)) im"
  let ?ia = "mask_and im (in_bounds ?A lon lat)" and ?ib = "mask_and im (in_bounds ?B lon lat)"
  have z: "shape2 ?z n m" using im by (simp add: shape2_map)
  have za: "?z ! j ! i = False" by (rule map_map_at[OF im j i])
  have sa: "shape2 ?ia n m" by (intro mask_and_shape in_bounds_shape im lon lat)
  have sb: "shape2 ?ib n m" by (intro mask_and_shape in_bounds_shape im lon lat)
  have s1: "shape2 (set_true ?ia ?z) n m" by (rule set_true_shape[OF sa z])
  have e: "build_fris_mask fb im lon lat = set_true ?ib (set_true ?ia ?z)"
    by (simp add: build_fris_mask_def fris_regions_def)
  have "build_fris_mask fb im lon lat ! j ! i = (?ib ! j ! i \<or> set_true ?ia ?z ! j ! i)"
    unfolding e by (rule set_true_at[OF sb s1 j i])
  also have "set_true ?ia ?z ! j ! i = (?ia ! j ! i \<or> ?z ! j ! i)"
    by (rule set_true_at[OF sa z j i])
  also have "?z ! j ! i = False" by (rule za)
  also have "?ia ! j ! i = (im ! j ! i \<and> in_bounds ?A lon lat ! j ! i)"
    by (rule mask_and_at[OF im in_bounds_shape[OF lon lat] j i])
  also have "?ib ! j ! i = (im ! j ! i \<and> in_bounds ?B lon lat ! j ! i)"
    by (rule mask_and_at[OF im in_bounds_shape[OF lon lat] j i])
  finally show ?thesis
    by (auto simp: in_bounds_at[OF lon lat j i])
qed

lemma build_fris_mask_claim:
  assumes "shape2 im n m" "shape2 lon n m" "shape2 lat n m" "j < n" "i < m" "fb ! 0 \<le> -45"
  shows "build_fris_mask fb im lon lat ! j ! i =
     (im ! j ! i \<and> (claim_region_A fb (lon ! j ! i) (lat ! j ! i) \<or> claim_region_B fb (lon ! j ! i) (lat ! j ! i)))"
  unfolding build_fris_mask_at[OF assms(1-5)] claim_region_A_def claim_region_B_def
  using assms(6) by auto

lemma build_ice_mask_shape:
  assumes "build_ice_mask hf = Inr im" "shape3 hf l n m"
  shows "shape2 im n m"
proof -
  from assms(1) obtain t r where hf: "hf = t # r" and im: "im = map2 (map2 (\<lambda>s h. s \<noteq> 0 \<and> h < 1)) (sum_axis0 hf) t"
    by (auto simp: build_ice_mask_def split: list.splits)
  have l: "0 < l" using assms(2) hf by (auto simp: shape3_def)
  have t: "shape2 t n m" using assms(2) hf by (auto simp: shape3_def)
  show ?thesis unfolding im by (rule shape2_map2[OF sum_axis0_shape[OF assms(2) l] t])
qed

text \<open>
  Claim C6. In a constructed Grid whose arrays have the shapes of the grid, and with the
  western bound \<open>fris_bounds[0]\<close> not east of 45W, on each of the three sub-grids the
  FRIS mask is true at a point exactly when the point is in the ice mask of the sub-grid
  and its longitude and latitude lie in region A (longitude in [west, -45], latitude in
  [south, -74.7]) or region B (longitude in (-45, east], latitude in [south, -77.85]).
  The source tests region B with \<open>lon >= -45\<close>; a point at -45 exactly that passes the
  latitude test of region B passes that of region A too, so the mask is the same.
\<close>

theorem fris_mask_regions:
  assumes ok: "Grid_init cs f x m0 = Inr g"
      and west: "fris_bounds cs ! 0 \<le> -45"
      and hc: "shape3 (hfac g) (nz g) (ny g) (nx g)"
      and hw: "shape3 (hfac_w g) (nz g) (ny g) (nx g)"
      and hs: "shape3 (hfac_s g) (nz g) (ny g) (nx g)"
      and lon: "shape2 (lon_2d g) (ny g) (nx g)" and lat: "shape2 (lat_2d g) (ny g) (nx g)"
      and lonc: "shape2 (lon_corners_2d g) (ny g) (nx g)" and latc: "shape2 (lat_corners_2d g) (ny g) (nx g)"
      and j: "j < ny g" and i: "i < nx g"
  shows "(fris_mask g ! j ! i \<longleftrightarrow>
            ice_mask g ! j ! i \<and>
            (claim_region_A (fris_bounds cs) (lon_2d g ! j ! i) (lat_2d g ! j ! i)
             \<or> claim_region_B (fris_bounds cs) (lon_2d g ! j ! i) (lat_2d g ! j ! i)))
       \<and> (fris_mask_u g ! j ! i \<longleftrightarrow>
            ice_mask_u g ! j ! i \<and>
            (claim_region_A (fris_bounds cs) (lon_corners_2d g ! j ! i) (lat_2d g ! j ! i)
             \<or> claim_region_B (fris_bounds cs) (lon_corners_2d g ! j ! i) (lat_2d g ! j ! i)))
       \<and> (fris_mask_v g ! j ! i \<longleftrightarrow>
            ice_mask_v g ! j ! i \<and>
            (claim_region_A (fris_bounds cs) (lon_2d g ! j ! i) (lat_corners_2d g ! j ! i)
             \<or> claim_region_B (fris_bounds cs) (lon_2d g ! j ! i) (lat_corners_2d g ! j ! i)))"
proof -
  from Grid_init_Inr[OF ok] have
    bc: "build_ice_mask (hfac g) = Inr (ice_mask g)" and
    bw: "build_ice_mask (hfac_w g) = Inr (ice_mask_u g)" and
    bs: "build_ice_mask (hfac_s g) = Inr (ice_mask_v g)" and
    fc: "fris_mask g = build_fris_mask (fris_bounds cs) (ice_mask g) (lon_2d g) (lat_2d g)" and
    fw: "fris_mask_u g = build_fris_mask (fris_bounds cs) (ice_mask_u g) (lon_corners_2d g) (lat_2d g)" and
    fs: "fris_mask_v g = build_fris_mask (fris_bounds cs) (ice_mask_v g) (lon_2d g) (lat_corners_2d g)"
    by auto
  note ic = build_ice_mask_shape[OF bc hc]
  note iw = build_ice_mask_shape[OF bw hw]
  note iv = build_ice_mask_shape[OF bs hs]
  show ?thesis
    unfolding fc fw fs
    by (intro conjI build_fris_mask_claim[OF ic lon lat j i west]
        build_fris_mask_claim[OF iw lonc lat j i west] build_fris_mask_claim[OF iv lon latc j i west])
qed


section \<open>Witnesses on the example grid\<close>

lemma example_ok: "Grid_init example_constants example_files True None = Inr example_grid"
  using example_constructed unfolding example_grid_def by auto

lemmas eval_example = example_grid_def eval_Grid example_files_def example_constants_def fix_lon_val_id

lemma example_dims: "nx example_grid = 4 \<and> ny example_grid = 4 \<and> nz example_grid = 3"
  by (simp add: eval_example)

lemma example_hfac:
  "hfac example_grid = [replicate 4 (replicate 4 (1/2)), replicate 4 (replicate 4 1), replicate 4 (replicate 4 1)]
   \<and> hfac_w example_grid = hfac example_grid \<and> hfac_s example_grid = hfac example_grid"
  by (simp add: eval_example)

lemma example_depths:
  "z_edges example_grid = [0, -10, -20, -30] \<and> dz example_grid = [10, 10, 10]
   \<and> wct example_grid = replicate 4 (replicate 4 25)"
  by (simp add: eval_example)

lemma example_shape3: "shape3 (hfac example_grid) (nz example_grid) (ny example_grid) (nx example_grid)"
  by (simp add: example_dims example_hfac shape3_def shape2_def list_all_iff)

lemma example_draft: "draft example_grid = replicate 4 (replicate 4 (-5))"
  by (simp add: eval_example)

theorem draft_topmost_wet_witness:
  "\<not> isl (Grid_init example_constants example_files True None)
   \<and> shape3 (hfac example_grid) (nz example_grid) (ny example_grid) (nx example_grid)
   \<and> hfac example_grid ! 0 ! 2 ! 3 = 1/2
   \<and> z_edges example_grid ! 0 - dz example_grid ! 0 * (1 - hfac example_grid ! 0 ! 2 ! 3) = -5
   \<and> draft example_grid ! 2 ! 3 = -5
   \<and> draft example_grid = replicate 4 (replicate 4 (-5))"
proof -
  have j: "2 < ny example_grid" and i: "3 < nx example_grid" and k: "0 < nz example_grid"
    by (simp_all add: example_dims)
  have h: "hfac example_grid ! 0 ! 2 ! 3 = 1/2"
    by (simp add: example_hfac numeral_eq_Suc)
  have v: "z_edges example_grid ! 0 - dz example_grid ! 0 * (1 - hfac example_grid ! 0 ! 2 ! 3) = -5"
    unfolding h by (simp add: example_depths)
  from draft_topmost_wet[OF example_ok example_shape3 j i] k h
  have "draft example_grid ! 2 ! 3
          = z_edges example_grid ! 0 - dz example_grid ! 0 * (1 - hfac example_grid ! 0 ! 2 ! 3)"
    by simp
  then have "draft example_grid ! 2 ! 3 = -5" by (simp only: v)
  then show ?thesis using example_ok example_shape3 h v example_draft by simp
qed

theorem bathy_is_draft_minus_wct_witness:
  "\<not> isl (Grid_init example_constants example_files True None)
   \<and> shape3 (hfac example_grid) (nz example_grid) (ny example_grid) (nx example_grid)
   \<and> shape2 (wct example_grid) (ny example_grid) (nx example_grid)
   \<and> draft example_grid ! 2 ! 3 = -5 \<and> wct example_grid ! 2 ! 3 = 25
   \<and> bathy example_grid ! 2 ! 3 = -30"
proof -
  have j: "2 < ny example_grid" and i: "3 < nx example_grid"
    by (simp_all add: example_dims)
  have w: "shape2 (wct example_grid) (ny example_grid) (nx example_grid)"
    by (simp add: example_dims example_depths shape2_def list_all_iff)
  have d: "draft example_grid ! 2 ! 3 = -5" by (simp add: example_draft)
  have c: "wct example_grid ! 2 ! 3 = 25" by (simp add: example_depths)
  have "bathy example_grid ! 2 ! 3 = -30"
    using bathy_is_draft_minus_wct[OF example_ok example_shape3 w j i] by (simp add: d c)
  then show ?thesis using example_ok example_shape3 w d c by simp
qed

lemma example_coords:
  "lon_2d example_grid = replicate 4 [-46, -45, -44, -43]
   \<and> lat_2d example_grid = [replicate 4 (-79), replicate 4 (-78), replicate 4 (-77), replicate 4 (-76)]
   \<and> shape2 (lon_corners_2d example_grid) 4 4 \<and> shape2 (lat_corners_2d example_grid) 4 4"
  by (simp add: eval_example shape2_def)

lemma example_ice: "ice_mask example_grid = replicate 4 (replicate 4 True)"
  by (simp add: eval_example)

theorem fris_mask_regions_witness:
  "\<not> isl (Grid_init example_constants example_files True None)
   \<and> fris_bounds example_constants ! 0 \<le> -45
   \<and> lon_2d example_grid ! 2 ! 1 = -45 \<and> lat_2d example_grid ! 2 ! 1 = -77
   \<and> ice_mask example_grid ! 2 ! 1
   \<and> claim_region_A (fris_bounds example_constants) (-45) (-77)
   \<and> \<not> claim_region_B (fris_bounds example_constants) (-45) (-77)
   \<and> fris_mask example_grid ! 2 ! 1
   \<and> lon_2d example_grid ! 2 ! 2 = -44 \<and> lat_2d example_grid ! 2 ! 2 = -77
   \<and> \<not> fris_mask example_grid ! 2 ! 2"
proof -
  have d: "ny example_grid = 4" "nx example_grid = 4" using example_dims by simp_all
  have west: "fris_bounds example_constants ! 0 \<le> -45" by (simp add: example_constants_def)
  have hw: "shape3 (hfac_w example_grid) (nz example_grid) (ny example_grid) (nx example_grid)"
   and hs: "shape3 (hfac_s example_grid) (nz example_grid) (ny example_grid) (nx example_grid)"
    using example_shape3 by (simp_all add: example_hfac)
  have lon: "shape2 (lon_2d example_grid) (ny example_grid) (nx example_grid)"
   and lat: "shape2 (lat_2d example_grid) (ny example_grid) (nx example_grid)"
    by (simp_all add: d example_coords shape2_def list_all_iff)
  have lonc: "shape2 (lon_corners_2d example_grid) (ny example_grid) (nx example_grid)"
   and latc: "shape2 (lat_corners_2d example_grid) (ny example_grid) (nx example_grid)"
    using example_coords by (simp_all add: d)
  have p1: "lon_2d example_grid ! 2 ! 1 = -45 \<and> lat_2d example_grid ! 2 ! 1 = -77"
    by (simp add: example_coords numeral_eq_Suc)
  have p2: "lon_2d example_grid ! 2 ! 2 = -44 \<and> lat_2d example_grid ! 2 ! 2 = -77"
    by (simp add: example_coords numeral_eq_Suc)
  have ice: "ice_mask example_grid ! 2 ! 1" "ice_mask example_grid ! 2 ! 2"
    by (simp_all add: example_ice)
  have a: "claim_region_A (fris_bounds example_constants) (-45) (-77)"
    and b: "\<not> claim_region_B (fris_bounds example_constants) (-45) (-77)"
    and a2: "\<not> claim_region_A (fris_bounds example_constants) (-44) (-77)"
    and b2: "\<not> claim_region_B (fris_bounds example_constants) (-44) (-77)"
    by (simp_all add: claim_region_A_def claim_region_B_def example_constants_def)
  have j: "2 < ny example_grid" and i1: "1 < nx example_grid" and i2: "2 < nx example_grid"
    by (simp_all add: d)
  have p1x: "lon_2d example_grid ! 2 ! 1 = -45" and p1y: "lat_2d example_grid ! 2 ! 1 = -77"
   and p2x: "lon_2d example_grid ! 2 ! 2 = -44" and p2y: "lat_2d example_grid ! 2 ! 2 = -77"
    using p1 p2 by blast+
  note r1 = conjunct1[OF fris_mask_regions[OF example_ok west example_shape3 hw hs lon lat lonc latc j i1]]
  note r2 = conjunct1[OF fris_mask_regions[OF example_ok west example_shape3 hw hs lon lat lonc latc j i2]]
  have f1: "fris_mask example_grid ! 2 ! 1"
    using r1 ice(1) a unfolding p1x p1y by blast
  have f2: "\<not> fris_mask example_grid ! 2 ! 2"
    using r2 a2 b2 unfolding p2x p2y by blast
  show ?thesis using example_ok west p1 p2 ice a b f1 f2 by simp
qed

section \<open>SOSEGrid: the accessors that fail\<close>

text \<open>
  Claim C9. For every SOSEGrid \<open>g\<close> and every argument \<open>gtype\<close> (left out or given),
  \<open>get_ice_mask\<close> and \<open>get_fris_mask\<close> end in \<open>sys.exit()\<close> after the message "no
  ice shelves to mask"; neither returns a mask.
\<close>

theorem sose_ice_fris_masks_fail:
  "SOSEGrid_get_ice_mask g gtype_arg = Inl (SysExit ''Error (SOSEGrid): no ice shelves to mask'')
   \<and> SOSEGrid_get_fris_mask g gtype_arg = Inl (SysExit ''Error (SOSEGrid): no ice shelves to mask'')
   \<and> \<not> (\<exists>m. SOSEGrid_get_ice_mask g gtype_arg = Inr m)
   \<and> \<not> (\<exists>m. SOSEGrid_get_fris_mask g gtype_arg = Inr m)"
  by (simp add: SOSEGrid_get_ice_mask_def SOSEGrid_get_fris_mask_def)

text \<open>
  Claim C10. For every SOSEGrid \<open>g\<close>: \<open>get_lon_lat\<close> called without \<open>dim\<close> is the
  call with \<open>dim=1\<close>, while the Grid's method without \<open>dim\<close> is its call with
  \<open>dim=2\<close>; a call with any \<open>dim\<close> other than 1 exits, for every \<open>gtype\<close>, and so does
  the call with \<open>dim=2\<close> that the default of the Grid stands for; with \<open>dim=1\<close> the grid
  types t, w, u, v and psi get the pair of 1D axes of that type.
\<close>

theorem sose_get_lon_lat_dim:
  "SOSEGrid_get_lon_lat g gtype_arg None = SOSEGrid_get_lon_lat g gtype_arg (Some 1)
   \<and> Grid_get_lon_lat mg gtype_arg None = Grid_get_lon_lat mg gtype_arg (Some 2)
   \<and> SOSEGrid_get_lon_lat g gtype_arg (Some d) =
       (if d = 1 then SOSEGrid_get_lon_lat g gtype_arg None
        else Inl (SysExit ''Error (get_lon_lat): must have dim=1 for SOSE grid''))
   \<and> SOSEGrid_get_lon_lat g gtype_arg (Some 2) = Inl (SysExit ''Error (get_lon_lat): must have dim=1 for SOSE grid'')
   \<and> SOSEGrid_get_lon_lat g None (Some 1) = Inr (Axes (s_lon_1d g) (s_lat_1d g))
   \<and> SOSEGrid_get_lon_lat g (Some ''t'') (Some 1) = Inr (Axes (s_lon_1d g) (s_lat_1d g))
   \<and> SOSEGrid_get_lon_lat g (Some ''w'') (Some 1) = Inr (Axes (s_lon_1d g) (s_lat_1d g))
   \<and> SOSEGrid_get_lon_lat g (Some ''u'') (Some 1) = Inr (Axes (s_lon_corners_1d g) (s_lat_1d g))
   \<and> SOSEGrid_get_lon_lat g (Some ''v'') (Some 1) = Inr (Axes (s_lon_1d g) (s_lat_corners_1d g))
   \<and> SOSEGrid_get_lon_lat g (Some ''psi'') (Some 1) = Inr (Axes (s_lon_corners_1d g) (s_lat_corners_1d g))
   \<and> Grid_get_lon_lat mg (Some ''t'') None = Inr (Meshes (lon_2d mg) (lat_2d mg))"
  by (simp add: SOSEGrid_get_lon_lat_def Grid_get_lon_lat_def)

section \<open>SOSEGrid: what a successful construction has computed\<close>

lemma sose_trim_extend_Inr:
  assumes "sose_trim_extend res f mg isplit lon1 lonc1 lat1 latc1 z1 = Inr g"
  shows "\<exists>xmin xmax ymin ymax zsh zdp i0b i1b j0b j0a j1b k0a k1b nz' base basec zm1 zm2 h hw hs al.
      amin2 (lon_corners_2d mg) = Inr xmin \<and> amax2 (lon_2d mg) = Inr xmax
    \<and> amin2 (lat_corners_2d mg) = Inr ymin \<and> amax2 (lat_2d mg) = Inr ymax
    \<and> first_elem (z mg) = Inr zsh \<and> last_elem (z mg) = Inr zdp
    \<and> west_index lon1 xmin = Inr i0b
    \<and> east_index lonc1 xmax (int (length lon1)) = Inr i1b
    \<and> south_index res lat1 ymin = Inr (j0b, j0a)
    \<and> north_index latc1 ymax (int (length lat1)) = Inr j1b
    \<and> depth_index z1 zsh zdp = Inr (k0a, k1b, nz')
    \<and> py_get lat1 j0b = Inr base \<and> py_get latc1 j0b = Inr basec
    \<and> last_elem (z mg) = Inr zm1 \<and> py_get (z mg) (-2) = Inr zm2
    \<and> check_bounds (py_slice i0b i1b lonc1) (lat_extend j0a res basec @ py_slice j0b j1b latc1)
         (replicate (nat k0a) 0 @ py_slice 0 k1b z1 @ replicate (nat (nz' - (k1b + k0a))) (2 * zm1 - zm2))
         xmin xmax ymin ymax zsh zdp = Inr ()
    \<and> al = \<lparr> trim_extend = True, i_split = isplit,
             i0_before = i0b, i0_after = 0, i1_before = i1b, i1_after = i1b - i0b,
             j0_before = j0b, j0_after = j0a, j1_before = j1b, j1_after = j1b - j0b + j0a,
             k0_before = 0, k0_after = k0a, k1_before = k1b, k1_after = k1b + k0a,
             s_nx = i1b - i0b, s_ny = j1b - j0b + j0a, s_nz = nz' \<rparr>
    \<and> read_field_xyz al (SOSE_hFacC f) 0 = Inr h
    \<and> read_field_xyz al (SOSE_hFacW f) 0 = Inr hw
    \<and> read_field_xyz al (SOSE_hFacS f) 0 = Inr hs
    \<and> g = sose_align.extend al
          (sose_grid.fields (py_slice i0b i1b lon1) (py_slice i0b i1b lonc1)
             (lat_extend j0a res base @ py_slice j0b j1b lat1)
             (lat_extend j0a res basec @ py_slice j0b j1b latc1)
             (replicate (nat k0a) 0 @ py_slice 0 k1b z1 @ replicate (nat (nz' - (k1b + k0a))) (2 * zm1 - zm2))
             h hw hs (build_land_mask h) (build_land_mask hw) (build_land_mask hs))"
  using assms
  apply (simp add: sose_trim_extend_def bindE_Inr Let_def split: prod.splits)
  apply (elim exE conjE)
  apply simp
  done


lemma sose_align_of_extend [simp]:
  "trim_extend (sose_align.extend al x) = trim_extend al"
  "i_split (sose_align.extend al x) = i_split al"
  "i0_before (sose_align.extend al x) = i0_before al"
  "i0_after (sose_align.extend al x) = i0_after al"
  "i1_before (sose_align.extend al x) = i1_before al"
  "i1_after (sose_align.extend al x) = i1_after al"
  "j0_before (sose_align.extend al x) = j0_before al"
  "j0_after (sose_align.extend al x) = j0_after al"
  "j1_before (sose_align.extend al x) = j1_before al"
  "j1_after (sose_align.extend al x) = j1_after al"
  "k0_before (sose_align.extend al x) = k0_before al"
  "k0_after (sose_align.extend al x) = k0_after al"
  "k1_before (sose_align.extend al x) = k1_before al"
  "k1_after (sose_align.extend al x) = k1_after al"
  "s_nx (sose_align.extend al x) = s_nx al"
  "s_ny (sose_align.extend al x) = s_ny al"
  "s_nz (sose_align.extend al x) = s_nz al"
  by (simp_all add: sose_align.defs)

lemma sose_grid_of_fields [simp]:
  "s_lon_1d (sose_align.extend al (sose_grid.fields a b c d e h hw hs m mu mv)) = a"
  "s_lon_corners_1d (sose_align.extend al (sose_grid.fields a b c d e h hw hs m mu mv)) = b"
  "s_lat_1d (sose_align.extend al (sose_grid.fields a b c d e h hw hs m mu mv)) = c"
  "s_lat_corners_1d (sose_align.extend al (sose_grid.fields a b c d e h hw hs m mu mv)) = d"
  "s_z (sose_align.extend al (sose_grid.fields a b c d e h hw hs m mu mv)) = e"
  "s_hfac (sose_align.extend al (sose_grid.fields a b c d e h hw hs m mu mv)) = h"
  "s_hfac_w (sose_align.extend al (sose_grid.fields a b c d e h hw hs m mu mv)) = hw"
  "s_hfac_s (sose_align.extend al (sose_grid.fields a b c d e h hw hs m mu mv)) = hs"
  "s_land_mask (sose_align.extend al (sose_grid.fields a b c d e h hw hs m mu mv)) = m"
  "s_land_mask_u (sose_align.extend al (sose_grid.fields a b c d e h hw hs m mu mv)) = mu"
  "s_land_mask_v (sose_align.extend al (sose_grid.fields a b c d e h hw hs m mu mv)) = mv"
  by (simp_all add: sose_align.defs sose_grid.defs)

lemma SOSEGrid_init_Some:
  assumes "SOSEGrid_init res f (Some mg) split = Inr g"
  shows "\<exists>max_lon isplit lon1 lonc1 lat1 latc1 z1.
      sose_max_lon (Some mg) split = Inr max_lon
    \<and> sose_axes f max_lon split = Inr (isplit, lon1, lonc1, lat1, latc1, z1)
    \<and> sose_trim_extend res f mg isplit lon1 lonc1 lat1 latc1 z1 = Inr g"
  using assms by (auto simp: SOSEGrid_init_def bindE_Inr split: prod.splits)

lemma check_bounds_Inr:
  assumes "check_bounds lonc latc zs xmin xmax ymin ymax zsh zdp = Inr u"
  shows "\<exists>a b c d e h.
      first_elem lonc = Inr a \<and> a \<le> xmin \<and> last_elem lonc = Inr b \<and> xmax \<le> b
    \<and> first_elem latc = Inr c \<and> c \<le> ymin \<and> last_elem latc = Inr d \<and> ymax \<le> d
    \<and> first_elem zs = Inr e \<and> zsh \<le> e \<and> last_elem zs = Inr h \<and> h \<le> zdp"
  using assms by (auto simp: check_bounds_def bindE_Inr split: if_splits)

text \<open>
  Claim C2. When a SOSEGrid is constructed with a model grid, the six bounds of the
  model grid exist (\<open>xmin\<close>, \<open>xmax\<close>, \<open>ymin\<close>, \<open>ymax\<close>, the shallowest and the
  deepest centre depth) and the axes of the SOSEGrid cover them: the first corner
  longitude is at most \<open>xmin\<close> and the last at least \<open>xmax\<close>, the first corner
  latitude is at most \<open>ymin\<close> and the last at least \<open>ymax\<close>, the first depth is at
  least the shallowest and the last at most the deepest. Any bound that is not covered
  ends the constructor in \<open>sys.exit()\<close>, so no such object is returned.
\<close>

theorem sose_bounds_cleared:
  assumes "SOSEGrid_init res f (Some mg) split = Inr g"
  shows "\<exists>xmin xmax ymin ymax z_shallow z_deep a b c d e h.
      amin2 (lon_corners_2d mg) = Inr xmin \<and> amax2 (lon_2d mg) = Inr xmax
    \<and> amin2 (lat_corners_2d mg) = Inr ymin \<and> amax2 (lat_2d mg) = Inr ymax
    \<and> first_elem (z mg) = Inr z_shallow \<and> last_elem (z mg) = Inr z_deep
    \<and> first_elem (s_lon_corners_1d g) = Inr a \<and> a \<le> xmin
    \<and> last_elem (s_lon_corners_1d g) = Inr b \<and> b \<ge> xmax
    \<and> first_elem (s_lat_corners_1d g) = Inr c \<and> c \<le> ymin
    \<and> last_elem (s_lat_corners_1d g) = Inr d \<and> d \<ge> ymax
    \<and> first_elem (s_z g) = Inr e \<and> e \<ge> z_shallow
    \<and> last_elem (s_z g) = Inr h \<and> h \<le> z_deep"
proof -
  from SOSEGrid_init_Some[OF assms] obtain isplit lon1 lonc1 lat1 latc1 z1 where
    t: "sose_trim_extend res f mg isplit lon1 lonc1 lat1 latc1 z1 = Inr g" by blast
  from sose_trim_extend_Inr[OF t] obtain xmin xmax ymin ymax zsh zdp where
    b: "amin2 (lon_corners_2d mg) = Inr xmin" "amax2 (lon_2d mg) = Inr xmax"
       "amin2 (lat_corners_2d mg) = Inr ymin" "amax2 (lat_2d mg) = Inr ymax"
       "first_elem (z mg) = Inr zsh" "last_elem (z mg) = Inr zdp"
    and c: "check_bounds (s_lon_corners_1d g) (s_lat_corners_1d g) (s_z g) xmin xmax ymin ymax zsh zdp = Inr ()"
    by (elim exE conjE) simp
  from check_bounds_Inr[OF c] b show ?thesis by blast
qed

section \<open>The example SOSEGrid, evaluated\<close>

lemma fix_lon_val_eval:
  "fix_lon_val m x =
     (if m - 360 < x \<and> x \<le> m then x
      else if m < x \<and> x \<le> m + 360 then x - 360
      else x - 360 * of_int \<lceil>(x - m) / 360\<rceil>)"
  using fix_lon_val_shift[of m x 0] fix_lon_val_shift[of m x 1]
  by (auto simp: fix_lon_val_def)

lemma example_bounds:
  "amin2 (lon_corners_2d example_grid) = Inr (-93/2) \<and> amax2 (lon_2d example_grid) = Inr (-43)
   \<and> amin2 (lat_corners_2d example_grid) = Inr (-159/2) \<and> amax2 (lat_2d example_grid) = Inr (-76)
   \<and> z example_grid = [-5, -15, -25]"
  by (simp add: eval_example amin2_def amax2_def)

lemma example_axes:
  "sose_axes example_sose_files 180 180 =
     Inr (2, [-50, -48, -46, -44, -42, -10, 10, 170], [-51, -49, -47, -45, -43, -11, 5, 160],
          [-155/2, -77, -153/2, -76, -151/2, -75], [-311/4, -309/4, -307/4, -305/4, -303/4, -301/4], [-10, -20])"
  by (simp add: sose_axes_def example_sose_files_def bindE_def fix_lon_range2_def fix_lon_val_eval row0_def col0_def
      first_index_def split_longitude_def split_longitude2_def first_elem_def strictly_increasing_def np_diff_def
      numeral_eq_Suc upt_rec Let_def)


lemmas eval_index = west_index_def east_index_def south_index_def north_index_def depth_index_def
  first_elem_def last_elem_def first_index_def py_get_def bindE_def Let_def numeral_eq_Suc upt_rec

lemma example_indices:
  "west_index [-50, -48, -46, -44, -42, -10, 10, 170] (-93/2) = Inr 1"
  "east_index [-51, -49, -47, -45, -43, -11, 5, 160] (-43) 8 = Inr 6"
  "south_index (1/2) [-155/2, -77, -153/2, -76, -151/2, -75] (-159/2) = Inr (0, 4)"
  "north_index [-311/4, -309/4, -307/4, -305/4, -303/4, -301/4] (-76) 6 = Inr 5"
  "depth_index [-10, -20] (-5) (-25) = Inr (1, 2, 4)"
  by (simp_all add: eval_index)

lemma example_read_hfac:
  "read_field_xyz example_align (replicate 2 (replicate 6 (replicate 8 1))) 0 = Inr example_hfac_read"
  by (simp add: read_field_xyz_def read_field_def assign3_def example_align_def example_hfac_read_def
      split_longitude3_def split_longitude2_def split_longitude_def py_slice_def clip_def slice_len_def
      set_slice_def shape3_def shape2_def bindE_def Let_def numeral_eq_Suc)


lemma example_max_lon: "sose_max_lon (Some example_grid) 180 = Inr 180"
  using example_bounds by (simp add: sose_max_lon_def bindE_def)

lemmas eval_sose = sose_trim_extend_def eval_index check_bounds_def py_slice_def clip_def lat_extend_def
  read_field_xyz_def read_field_def assign3_def
  split_longitude3_def split_longitude2_def split_longitude_def slice_len_def
  set_slice_def shape3_def shape2_def

lemma example_trim:
  "sose_trim_extend (1/2) example_sose_files example_grid 2
      [-50, -48, -46, -44, -42, -10, 10, 170] [-51, -49, -47, -45, -43, -11, 5, 160]
      [-155/2, -77, -153/2, -76, -151/2, -75] [-311/4, -309/4, -307/4, -305/4, -303/4, -301/4] [-10, -20]
   = Inr example_sose_result"
  using example_bounds
  by (simp add: eval_sose example_sose_result_def example_align_def example_hfac_read_def
      example_sose_files_def)

lemma example_sose_constructed:
  "SOSEGrid_init (1/2) example_sose_files (Some example_grid) 180 = Inr example_sose_result"
  by (simp only: SOSEGrid_init_def example_max_lon bindE_def sum.case example_axes prod.case
      option.case example_trim)

lemma example_sose_grid_eq: "example_sose_grid = example_sose_result"
  by (simp add: example_sose_grid_def example_sose_constructed)

theorem sose_bounds_cleared_witness:
  "SOSEGrid_init (1/2) example_sose_files (Some example_grid) 180 = Inr example_sose_grid
   \<and> amin2 (lon_corners_2d example_grid) = Inr (-93/2) \<and> first_elem (s_lon_corners_1d example_sose_grid) = Inr (-49)
   \<and> amax2 (lon_2d example_grid) = Inr (-43) \<and> last_elem (s_lon_corners_1d example_sose_grid) = Inr (-11)
   \<and> amin2 (lat_corners_2d example_grid) = Inr (-159/2) \<and> first_elem (s_lat_corners_1d example_sose_grid) = Inr (-319/4)
   \<and> amax2 (lat_2d example_grid) = Inr (-76) \<and> last_elem (s_lat_corners_1d example_sose_grid) = Inr (-303/4)
   \<and> first_elem (z example_grid) = Inr (-5) \<and> first_elem (s_z example_sose_grid) = Inr 0
   \<and> last_elem (z example_grid) = Inr (-25) \<and> last_elem (s_z example_sose_grid) = Inr (-35)"
proof -
  have ok: "SOSEGrid_init (1/2) example_sose_files (Some example_grid) 180 = Inr example_sose_grid"
    by (simp add: example_sose_grid_eq example_sose_constructed)
  from sose_bounds_cleared[OF ok] obtain xmin xmax ymin ymax zsh zdp a b c d e h where
    r: "amin2 (lon_corners_2d example_grid) = Inr xmin" "amax2 (lon_2d example_grid) = Inr xmax"
       "amin2 (lat_corners_2d example_grid) = Inr ymin" "amax2 (lat_2d example_grid) = Inr ymax"
       "first_elem (z example_grid) = Inr zsh" "last_elem (z example_grid) = Inr zdp"
       "first_elem (s_lon_corners_1d example_sose_grid) = Inr a" "a \<le> xmin"
       "last_elem (s_lon_corners_1d example_sose_grid) = Inr b" "b \<ge> xmax"
       "first_elem (s_lat_corners_1d example_sose_grid) = Inr c" "c \<le> ymin"
       "last_elem (s_lat_corners_1d example_sose_grid) = Inr d" "d \<ge> ymax"
       "first_elem (s_z example_sose_grid) = Inr e" "e \<ge> zsh"
       "last_elem (s_z example_sose_grid) = Inr h" "h \<le> zdp"
    by blast
  have v: "first_elem (s_lon_corners_1d example_sose_grid) = Inr (-49)"
      "last_elem (s_lon_corners_1d example_sose_grid) = Inr (-11)"
      "first_elem (s_lat_corners_1d example_sose_grid) = Inr (-319/4)"
      "last_elem (s_lat_corners_1d example_sose_grid) = Inr (-303/4)"
      "first_elem (s_z example_sose_grid) = Inr 0"
      "last_elem (s_z example_sose_grid) = Inr (-35)"
    by (simp_all add: example_sose_grid_eq example_sose_result_def first_elem_def last_elem_def)
  have zs: "first_elem (z example_grid) = Inr (-5)" "last_elem (z example_grid) = Inr (-25)"
    using example_bounds by (simp_all add: first_elem_def last_elem_def)
  show ?thesis using ok r(1-4) v zs example_bounds by simp
qed

section \<open>First and last elements\<close>

lemma first_elem_Inr: "first_elem xs = Inr x \<longleftrightarrow> (xs \<noteq> [] \<and> x = xs ! 0)"
  by (cases xs) (auto simp: first_elem_def)

lemma last_elem_Inr: "last_elem xs = Inr x \<longleftrightarrow> (xs \<noteq> [] \<and> x = last xs)"
  by (auto simp: last_elem_def)

section \<open>SOSEGrid: the bounds of the indices\<close>

lemma row0_Inr: "row0 a = Inr r \<longleftrightarrow> (a \<noteq> [] \<and> r = a ! 0)"
  by (cases a) (auto simp: row0_def)

lemma col0_length: "col0 a = Inr c \<Longrightarrow> length c = length a"
  by (auto simp: col0_def split: if_splits)

lemma length_split_longitude: "length (split_longitude xs i) = length xs"
  by (simp add: split_longitude_def)

lemma shape2_split_longitude2: "shape2 a n m \<Longrightarrow> shape2 (split_longitude2 a i) n m"
  by (auto simp: shape2_def split_longitude2_def list_all_length length_split_longitude)

lemma shape3_split_longitude3: "shape3 a l n m \<Longrightarrow> shape3 (split_longitude3 a i) l n m"
  by (auto simp: shape3_def split_longitude3_def list_all_length shape2_split_longitude2)

lemma sose_axes_lengths:
  assumes ax: "sose_axes f ml split = Inr (isplit, lon1, lonc1, lat1, latc1, z1)"
      and xc: "shape2 (XC f) sny snx" and xg: "shape2 (XG f) sny snx"
      and yc: "shape2 (YC f) sny snx" and yg: "shape2 (YG f) sny snx"
  shows "length lon1 = snx \<and> length lonc1 = snx \<and> length lat1 = sny \<and> length latc1 = sny \<and> z1 = RC f"
proof -
  from ax obtain lon0 lonc0 c0 where
    r1: "row0 (map (map (fix_lon_val ml)) (XC f)) = Inr lon0" and
    l1: "lon1 = lon0 \<or> (\<exists>i. lon1 = split_longitude lon0 i)" and
    r2: "row0 (split_longitude2 (map (map (fix_lon_val ml)) (XG f)) isplit) = Inr lonc0" and
    l2: "lonc1 = lonc0 \<or> lonc1 = lonc0[0 := c0 - 360]" and
    c1: "col0 (YC f) = Inr lat1" and c2: "col0 (YG f) = Inr latc1" and z: "z1 = RC f"
    by (auto simp: sose_axes_def bindE_Inr fix_lon_range2_def Let_def split: if_splits prod.splits)
  have s1: "shape2 (map (map (fix_lon_val ml)) (XC f)) sny snx" using xc by (simp add: shape2_map)
  have s2: "shape2 (split_longitude2 (map (map (fix_lon_val ml)) (XG f)) isplit) sny snx"
    using xg by (simp add: shape2_map shape2_split_longitude2)
  have a: "length lon0 = snx" using r1 s1 by (auto simp: row0_Inr shape2_def list_all_length)
  have b: "length lonc0 = snx" using r2 s2 by (auto simp: row0_Inr shape2_def list_all_length)
  have c: "length lat1 = sny" using col0_length[OF c1] yc by (simp add: shape2_def)
  have d: "length latc1 = sny" using col0_length[OF c2] yg by (simp add: shape2_def)
  show ?thesis using a b c d z l1 l2 by (auto simp: length_split_longitude)
qed

lemma first_index_prop: "first_index P xs = Inr i \<Longrightarrow> 0 \<le> i \<and> i < int (length xs) \<and> P (xs ! nat i)"
  by (auto simp: first_index_def find_Some_iff split: option.splits)

lemma west_index_bounds:
  assumes "west_index lon1 xmin = Inr i0b"
  shows "0 \<le> i0b \<and> i0b < int (length lon1)"
proof -
  from assms obtain l0 where l0: "first_elem lon1 = Inr l0" and
    c: "(xmin = l0 \<and> i0b = 0) \<or> (xmin > l0 \<and> (\<exists>i. first_index (\<lambda>v. v > xmin) lon1 = Inr i \<and> i0b = i - 1))"
    by (auto simp: west_index_def bindE_Inr split: if_splits)
  have ne: "lon1 \<noteq> []" and v: "l0 = lon1 ! 0" using l0 by (simp_all add: first_elem_Inr)
  from c show ?thesis
  proof
    assume "xmin = l0 \<and> i0b = 0" then show ?thesis using ne by simp
  next
    assume "xmin > l0 \<and> (\<exists>i. first_index (\<lambda>v. v > xmin) lon1 = Inr i \<and> i0b = i - 1)"
    then obtain i where g: "xmin > l0" and fi: "first_index (\<lambda>v. v > xmin) lon1 = Inr i" and e: "i0b = i - 1"
      by blast
    from first_index_prop[OF fi] have p: "0 \<le> i" "i < int (length lon1)" "lon1 ! nat i > xmin" by simp_all
    have "i \<noteq> 0" using p(3) g v by auto
    then show ?thesis using p e by simp
  qed
qed

lemma east_index_bounds:
  assumes "east_index lonc1 xmax n = Inr i1b" "int (length lonc1) = n"
  shows "1 \<le> i1b \<and> i1b \<le> n"
proof -
  from assms(1) obtain ln where l: "last_elem lonc1 = Inr ln" and
    c: "i1b = n \<or> (\<exists>i. first_index (\<lambda>v. v > xmax) lonc1 = Inr i \<and> i1b = i + 1)"
    by (auto simp: east_index_def bindE_Inr split: if_splits)
  have ne: "lonc1 \<noteq> []" using l by (simp add: last_elem_Inr)
  then have n1: "1 \<le> n" using assms(2) by (cases lonc1) auto
  from c show ?thesis
  proof
    assume "i1b = n" then show ?thesis using n1 by simp
  next
    assume "\<exists>i. first_index (\<lambda>v. v > xmax) lonc1 = Inr i \<and> i1b = i + 1"
    then obtain i where fi: "first_index (\<lambda>v. v > xmax) lonc1 = Inr i" and e: "i1b = i + 1" by blast
    from first_index_prop[OF fi] show ?thesis using e assms(2) by simp
  qed
qed

lemma north_index_bounds:
  assumes "north_index latc1 ymax n = Inr j1b" "int (length latc1) = n"
  shows "1 \<le> j1b \<and> j1b \<le> n"
proof -
  from assms(1) obtain ln where l: "last_elem latc1 = Inr ln" and
    c: "j1b = n \<or> (\<exists>i. first_index (\<lambda>v. v > ymax) latc1 = Inr i \<and> j1b = i + 1)"
    by (auto simp: north_index_def bindE_Inr split: if_splits)
  have ne: "latc1 \<noteq> []" using l by (simp add: last_elem_Inr)
  then have n1: "1 \<le> n" using assms(2) by (cases latc1) auto
  from c show ?thesis
  proof
    assume "j1b = n" then show ?thesis using n1 by simp
  next
    assume "\<exists>i. first_index (\<lambda>v. v > ymax) latc1 = Inr i \<and> j1b = i + 1"
    then obtain i where fi: "first_index (\<lambda>v. v > ymax) latc1 = Inr i" and e: "j1b = i + 1" by blast
    from first_index_prop[OF fi] show ?thesis using e assms(2) by simp
  qed
qed

lemma south_index_bounds:
  assumes "south_index res lat1 ymin = Inr (j0b, j0a)" "0 < res"
  shows "0 \<le> j0b \<and> j0b < int (length lat1) \<and> 0 \<le> j0a \<and> (j0a = 0 \<or> j0b = 0)"
proof -
  from assms(1) obtain l0 where l0: "first_elem lat1 = Inr l0" and
    c: "(ymin = l0 \<and> j0b = 0 \<and> j0a = 0)
        \<or> (ymin > l0 \<and> j0a = 0 \<and> (\<exists>j. first_index (\<lambda>v. v > ymin) lat1 = Inr j \<and> j0b = j - 1))
        \<or> (ymin < l0 \<and> j0b = 0 \<and> j0a = \<lceil>(l0 - ymin) / res\<rceil>)"
    by (auto simp: south_index_def bindE_Inr split: if_splits)
  have ne: "lat1 \<noteq> []" and v: "l0 = lat1 ! 0" using l0 by (simp_all add: first_elem_Inr)
  from c show ?thesis
  proof (elim disjE)
    assume "ymin = l0 \<and> j0b = 0 \<and> j0a = 0" then show ?thesis using ne by simp
  next
    assume "ymin > l0 \<and> j0a = 0 \<and> (\<exists>j. first_index (\<lambda>v. v > ymin) lat1 = Inr j \<and> j0b = j - 1)"
    then obtain j where g: "ymin > l0" and a: "j0a = 0"
      and fi: "first_index (\<lambda>v. v > ymin) lat1 = Inr j" and e: "j0b = j - 1"
      by blast
    from first_index_prop[OF fi] have p: "0 \<le> j" "j < int (length lat1)" "lat1 ! nat j > ymin" by simp_all
    have "j \<noteq> 0" using p(3) g v by auto
    then show ?thesis using p e a by simp
  next
    assume h: "ymin < l0 \<and> j0b = 0 \<and> j0a = \<lceil>(l0 - ymin) / res\<rceil>"
    then have "0 < (l0 - ymin) / res" using assms(2) by simp
    then have "0 < j0a" using h by simp
    then show ?thesis using h ne by simp
  qed
qed

lemma depth_index_bounds:
  assumes "depth_index z1 zsh zdp = Inr (k0a, k1b, nz')"
  shows "0 \<le> k0a \<and> k0a \<le> 1 \<and> 1 \<le> k1b \<and> k1b \<le> int (length z1) \<and> k1b + k0a \<le> nz' \<and> nz' \<le> k1b + k0a + 1"
proof -
  from assms obtain z0 zl where
    a: "first_elem z1 = Inr z0" and k0: "k0a = (if zsh \<le> z0 then 0 else 1)" and
    k1: "(k1b = int (length z1)) \<or> (\<exists>k. first_index (\<lambda>v. v < zdp) z1 = Inr k \<and> k1b = k + 1)" and
    n: "nz' = k1b + k0a + 1 \<or> nz' = k1b + k0a"
    by (auto simp: depth_index_def bindE_Inr Let_def split: if_splits)
  have ne: "z1 \<noteq> []" using a by (simp add: first_elem_Inr)
  have "1 \<le> k1b \<and> k1b \<le> int (length z1)"
    using k1 ne first_index_prop by (cases z1) fastforce+
  then show ?thesis using k0 n by auto
qed

section \<open>Slices\<close>

lemma clip_id: "0 \<le> a \<Longrightarrow> a \<le> int n \<Longrightarrow> clip n a = nat a"
  by (auto simp: clip_def)

lemma py_slice_eq:
  "0 \<le> a \<Longrightarrow> a \<le> b \<Longrightarrow> b \<le> int (length xs) \<Longrightarrow> py_slice a b xs = drop (nat a) (take (nat b) xs)"
  by (simp add: py_slice_def clip_id)

lemma py_slice_len:
  "0 \<le> a \<Longrightarrow> a \<le> b \<Longrightarrow> b \<le> int (length xs) \<Longrightarrow> length (py_slice a b xs) = nat (b - a)"
  by (simp add: py_slice_eq nat_diff_distrib)

lemma py_slice_nth:
  "0 \<le> a \<Longrightarrow> a \<le> b \<Longrightarrow> b \<le> int (length xs) \<Longrightarrow> n < nat (b - a) \<Longrightarrow>
   py_slice a b xs ! n = xs ! (nat a + n)"
  by (simp add: py_slice_eq nat_diff_distrib)

lemma slice_len_id: "0 \<le> a \<Longrightarrow> a \<le> b \<Longrightarrow> b \<le> int n \<Longrightarrow> slice_len n a b = nat (b - a)"
  by (simp add: slice_len_def clip_id nat_diff_distrib)

lemma set_slice_len:
  "0 \<le> a \<Longrightarrow> a \<le> b \<Longrightarrow> b \<le> int (length dest) \<Longrightarrow> length src = nat (b - a) \<Longrightarrow>
   length (set_slice a b dest src) = length dest"
  by (simp add: set_slice_def clip_id slice_len_id nat_diff_distrib)

lemma set_slice_nth:
  assumes "0 \<le> a" "a \<le> b" "b \<le> int (length dest)" "length src = nat (b - a)" "n < length dest"
  shows "set_slice a b dest src ! n = (if a \<le> int n \<and> int n < b then src ! (n - nat a) else dest ! n)"
proof -
  define A B where "A = nat a" and "B = nat b"
  have AB: "A \<le> B" "B \<le> length dest" and ls: "length src = B - A"
    using assms by (simp_all add: A_def B_def nat_diff_distrib)
  have ca: "(a \<le> int n) = (A \<le> n)" and cb: "(int n < b) = (n < B)"
    using assms by (auto simp: A_def B_def)
  have e: "set_slice a b dest src = take A dest @ src @ drop B dest"
    using assms AB by (simp add: set_slice_def clip_id slice_len_id A_def B_def nat_diff_distrib)
  have la: "length (take A dest) = A" using AB by simp
  have "(take A dest @ src @ drop B dest) ! n = (if A \<le> n \<and> n < B then src ! (n - A) else dest ! n)"
  proof (cases "n < A")
    case True
    then show ?thesis using AB by (simp add: nth_append)
  next
    case False
    show ?thesis
    proof (cases "n < B")
      case True
      then have "n - A < length src" using False ls by simp
      then show ?thesis using False True la by (simp add: nth_append)
    next
      case nb: False
      have "n - A - length src = n - B" using AB ls nb False by simp
      moreover have "B + (n - B) = n" using nb by simp
      moreover have "\<not> n - A < length src" using ls nb AB False by simp
      ultimately show ?thesis using False nb la assms(5) AB by (simp add: nth_append)
    qed
  qed
  then show ?thesis unfolding e ca cb A_def .
qed

section \<open>A window written into an array\<close>

lemma shape2_nth_len: "shape2 a n m \<Longrightarrow> j < n \<Longrightarrow> length (a ! j) = m"
  by (simp add: shape2_def list_all_length)

lemma shape2_I: "length a = n \<Longrightarrow> (\<And>j. j < n \<Longrightarrow> length (a ! j) = m) \<Longrightarrow> shape2 a n m"
  by (simp add: shape2_def list_all_length)

lemma shape3_I: "length a = l \<Longrightarrow> (\<And>k. k < l \<Longrightarrow> shape2 (a ! k) n m) \<Longrightarrow> shape3 a l n m"
  by (simp add: shape3_def list_all_length)

lemma window2:
  assumes d: "shape2 d n_y n_x"
      and j: "0 \<le> ja" "ja \<le> jb" "jb \<le> int n_y"
      and i: "0 \<le> ia" "ia \<le> ib" "ib \<le> int n_x"
      and l: "shape2 l (nat (jb - ja)) (nat (ib - ia))"
  shows "shape2 (set_slice ja jb d (map2 (set_slice ia ib) (py_slice ja jb d) l)) n_y n_x"
    and "\<And>r c. r < n_y \<Longrightarrow> c < n_x \<Longrightarrow>
           set_slice ja jb d (map2 (set_slice ia ib) (py_slice ja jb d) l) ! r ! c =
             (if ja \<le> int r \<and> int r < jb \<and> ia \<le> int c \<and> int c < ib
              then l ! (r - nat ja) ! (c - nat ia) else d ! r ! c)"
proof -
  let ?rows = "map2 (set_slice ia ib) (py_slice ja jb d) l"
  have ld: "length d = n_y" using d by (simp add: shape2_def)
  have ll: "length l = nat (jb - ja)" using l by (simp add: shape2_def)
  have lp: "length (py_slice ja jb d) = nat (jb - ja)" using j ld by (simp add: py_slice_len)
  have lr: "length ?rows = nat (jb - ja)" using lp ll by simp
  have row: "\<And>m. m < nat (jb - ja) \<Longrightarrow> ?rows ! m = set_slice ia ib (d ! (nat ja + m)) (l ! m)"
    using lp ll j ld by (simp add: py_slice_nth)
  have dl: "\<And>r. r < n_y \<Longrightarrow> length (d ! r) = n_x" using d by (simp add: shape2_nth_len)
  have sl: "\<And>m. m < nat (jb - ja) \<Longrightarrow> length (l ! m) = nat (ib - ia)" using l by (simp add: shape2_nth_len)
  have inr: "\<And>m. m < nat (jb - ja) \<Longrightarrow> nat ja + m < n_y" using j by auto
  have rl: "\<And>m. m < nat (jb - ja) \<Longrightarrow> length (?rows ! m) = n_x"
    using row i dl sl inr by (simp add: set_slice_len)
  have len: "length (set_slice ja jb d ?rows) = n_y"
    using j ld lr by (simp add: set_slice_len)
  have nth: "\<And>r. r < n_y \<Longrightarrow> set_slice ja jb d ?rows ! r =
               (if ja \<le> int r \<and> int r < jb then ?rows ! (r - nat ja) else d ! r)"
    using j ld lr by (simp add: set_slice_nth)
  have inw: "\<And>r. ja \<le> int r \<Longrightarrow> int r < jb \<Longrightarrow> r - nat ja < nat (jb - ja) \<and> nat ja + (r - nat ja) = r"
    using j by auto
  show "shape2 (set_slice ja jb d ?rows) n_y n_x"
  proof (rule shape2_I[OF len])
    fix r assume r: "r < n_y"
    show "length (set_slice ja jb d ?rows ! r) = n_x"
      using nth[OF r] rl inw dl[OF r] by auto
  qed
  fix r c assume r: "r < n_y" and c: "c < n_x"
  show "set_slice ja jb d ?rows ! r ! c =
             (if ja \<le> int r \<and> int r < jb \<and> ia \<le> int c \<and> int c < ib
              then l ! (r - nat ja) ! (c - nat ia) else d ! r ! c)"
  proof (cases "ja \<le> int r \<and> int r < jb")
    case False
    then show ?thesis using nth[OF r] by auto
  next
    case True
    then have m: "r - nat ja < nat (jb - ja)" and bk: "nat ja + (r - nat ja) = r" using inw by auto
    have "set_slice ja jb d ?rows ! r = set_slice ia ib (d ! r) (l ! (r - nat ja))"
      using nth[OF r] True row[OF m] bk by simp
    moreover have "set_slice ia ib (d ! r) (l ! (r - nat ja)) ! c =
        (if ia \<le> int c \<and> int c < ib then l ! (r - nat ja) ! (c - nat ia) else d ! r ! c)"
      using i dl[OF r] sl[OF m] c by (simp add: set_slice_nth)
    ultimately show ?thesis using True by simp
  qed
qed

lemma src2:
  assumes a: "shape2 a sny snx"
      and j: "0 \<le> ja" "ja \<le> jb" "jb \<le> int sny"
      and i: "0 \<le> ia" "ia \<le> ib" "ib \<le> int snx"
  shows "shape2 (map (py_slice ia ib) (py_slice ja jb a)) (nat (jb - ja)) (nat (ib - ia))"
    and "\<And>r c. r < nat (jb - ja) \<Longrightarrow> c < nat (ib - ia) \<Longrightarrow>
           map (py_slice ia ib) (py_slice ja jb a) ! r ! c = a ! (nat ja + r) ! (nat ia + c)"
proof -
  have la: "length a = sny" using a by (simp add: shape2_def)
  have lp: "length (py_slice ja jb a) = nat (jb - ja)" using j la by (simp add: py_slice_len)
  have inr: "\<And>m. m < nat (jb - ja) \<Longrightarrow> nat ja + m < sny" using j by auto
  have row: "\<And>m. m < nat (jb - ja) \<Longrightarrow> py_slice ja jb a ! m = a ! (nat ja + m)"
    using j la by (simp add: py_slice_nth)
  have rl: "\<And>m. m < nat (jb - ja) \<Longrightarrow> length (a ! (nat ja + m)) = snx"
    using a inr by (simp add: shape2_nth_len)
  show "shape2 (map (py_slice ia ib) (py_slice ja jb a)) (nat (jb - ja)) (nat (ib - ia))"
    by (rule shape2_I) (use lp row rl i in \<open>simp_all add: py_slice_len\<close>)
  fix r c assume r: "r < nat (jb - ja)" and c: "c < nat (ib - ia)"
  show "map (py_slice ia ib) (py_slice ja jb a) ! r ! c = a ! (nat ja + r) ! (nat ia + c)"
    using lp r c row[OF r] rl[OF r] i by (simp add: py_slice_nth)
qed

lemma shape3_nth: "shape3 a l n m \<Longrightarrow> k < l \<Longrightarrow> shape2 (a ! k) n m"
  by (simp add: shape3_def list_all_length)

lemma window3:
  assumes D: "shape3 D n_z n_y n_x"
      and k: "0 \<le> ka" "ka \<le> kb" "kb \<le> int n_z"
      and j: "0 \<le> ja" "ja \<le> jb" "jb \<le> int n_y"
      and i: "0 \<le> ia" "ia \<le> ib" "ib \<le> int n_x"
      and L: "shape3 L (nat (kb - ka)) (nat (jb - ja)) (nat (ib - ia))"
  shows "shape3 (set_slice ka kb D
            (map2 (\<lambda>d l. set_slice ja jb d (map2 (set_slice ia ib) (py_slice ja jb d) l))
               (py_slice ka kb D) L)) n_z n_y n_x"
    and "\<And>p r c. p < n_z \<Longrightarrow> r < n_y \<Longrightarrow> c < n_x \<Longrightarrow>
           set_slice ka kb D
            (map2 (\<lambda>d l. set_slice ja jb d (map2 (set_slice ia ib) (py_slice ja jb d) l))
               (py_slice ka kb D) L) ! p ! r ! c =
             (if ka \<le> int p \<and> int p < kb \<and> ja \<le> int r \<and> int r < jb \<and> ia \<le> int c \<and> int c < ib
              then L ! (p - nat ka) ! (r - nat ja) ! (c - nat ia) else D ! p ! r ! c)"
proof -
  let ?W = "\<lambda>d l. set_slice ja jb d (map2 (set_slice ia ib) (py_slice ja jb d) l)"
  let ?lay = "map2 ?W (py_slice ka kb D) L"
  have lD: "length D = n_z" using D by (simp add: shape3_def)
  have lL: "length L = nat (kb - ka)" using L by (simp add: shape3_def)
  have lp: "length (py_slice ka kb D) = nat (kb - ka)" using k lD by (simp add: py_slice_len)
  have ll: "length ?lay = nat (kb - ka)" using lp lL by simp
  have inr: "\<And>m. m < nat (kb - ka) \<Longrightarrow> nat ka + m < n_z" using k by auto
  have lay: "\<And>m. m < nat (kb - ka) \<Longrightarrow> ?lay ! m = ?W (D ! (nat ka + m)) (L ! m)"
    using lp lL k lD by (simp add: py_slice_nth)
  have dD: "\<And>p. p < n_z \<Longrightarrow> shape2 (D ! p) n_y n_x" using D by (simp add: shape3_nth)
  have dL: "\<And>m. m < nat (kb - ka) \<Longrightarrow> shape2 (L ! m) (nat (jb - ja)) (nat (ib - ia))"
    using L by (simp add: shape3_nth)
  have len: "length (set_slice ka kb D ?lay) = n_z" using k lD ll by (simp add: set_slice_len)
  have nth: "\<And>p. p < n_z \<Longrightarrow> set_slice ka kb D ?lay ! p =
               (if ka \<le> int p \<and> int p < kb then ?lay ! (p - nat ka) else D ! p)"
    using k lD ll by (simp add: set_slice_nth)
  have inw: "\<And>p. ka \<le> int p \<Longrightarrow> int p < kb \<Longrightarrow> p - nat ka < nat (kb - ka) \<and> nat ka + (p - nat ka) = p"
    using k by auto
  have sel: "\<And>p. p < n_z \<Longrightarrow> ka \<le> int p \<and> int p < kb \<Longrightarrow>
               set_slice ka kb D ?lay ! p = ?W (D ! p) (L ! (p - nat ka))"
  proof -
    fix p assume p: "p < n_z" and w: "ka \<le> int p \<and> int p < kb"
    have m: "p - nat ka < nat (kb - ka)" and bk: "nat ka + (p - nat ka) = p" using inw w by auto
    have "set_slice ka kb D ?lay ! p = ?lay ! (p - nat ka)" using nth[OF p] w by simp
    also have "\<dots> = ?W (D ! (nat ka + (p - nat ka))) (L ! (p - nat ka))" by (rule lay[OF m])
    finally show "set_slice ka kb D ?lay ! p = ?W (D ! p) (L ! (p - nat ka))" unfolding bk .
  qed
  show "shape3 (set_slice ka kb D ?lay) n_z n_y n_x"
  proof (rule shape3_I[OF len])
    fix p assume p: "p < n_z"
    show "shape2 (set_slice ka kb D ?lay ! p) n_y n_x"
    proof (cases "ka \<le> int p \<and> int p < kb")
      case False
      then show ?thesis using nth[OF p] dD[OF p] by auto
    next
      case True
      then have m: "p - nat ka < nat (kb - ka)" using inw by auto
      show ?thesis unfolding sel[OF p True]
        by (rule window2(1)[OF dD[OF p] j i dL[OF m]])
    qed
  qed
  fix p r c assume p: "p < n_z" and r: "r < n_y" and c: "c < n_x"
  show "set_slice ka kb D ?lay ! p ! r ! c =
             (if ka \<le> int p \<and> int p < kb \<and> ja \<le> int r \<and> int r < jb \<and> ia \<le> int c \<and> int c < ib
              then L ! (p - nat ka) ! (r - nat ja) ! (c - nat ia) else D ! p ! r ! c)"
  proof (cases "ka \<le> int p \<and> int p < kb")
    case False
    then show ?thesis using nth[OF p] by auto
  next
    case True
    then have m: "p - nat ka < nat (kb - ka)" using inw by auto
    show ?thesis unfolding sel[OF p True] window2(2)[OF dD[OF p] j i dL[OF m] r c]
      using True by simp
  qed
qed

lemma src3:
  assumes a: "shape3 a snz sny snx"
      and k: "0 \<le> ka" "ka \<le> kb" "kb \<le> int snz"
      and j: "0 \<le> ja" "ja \<le> jb" "jb \<le> int sny"
      and i: "0 \<le> ia" "ia \<le> ib" "ib \<le> int snx"
  shows "shape3 (map (\<lambda>l. map (py_slice ia ib) (py_slice ja jb l)) (py_slice ka kb a))
           (nat (kb - ka)) (nat (jb - ja)) (nat (ib - ia))"
    and "\<And>p r c. p < nat (kb - ka) \<Longrightarrow> r < nat (jb - ja) \<Longrightarrow> c < nat (ib - ia) \<Longrightarrow>
           map (\<lambda>l. map (py_slice ia ib) (py_slice ja jb l)) (py_slice ka kb a) ! p ! r ! c
             = a ! (nat ka + p) ! (nat ja + r) ! (nat ia + c)"
proof -
  have la: "length a = snz" using a by (simp add: shape3_def)
  have lp: "length (py_slice ka kb a) = nat (kb - ka)" using k la by (simp add: py_slice_len)
  have inr: "\<And>m. m < nat (kb - ka) \<Longrightarrow> nat ka + m < snz" using k by auto
  have lay: "\<And>m. m < nat (kb - ka) \<Longrightarrow> py_slice ka kb a ! m = a ! (nat ka + m)"
    using k la by (simp add: py_slice_nth)
  have sh: "\<And>m. m < nat (kb - ka) \<Longrightarrow> shape2 (a ! (nat ka + m)) sny snx"
    using a inr by (simp add: shape3_nth)
  show "shape3 (map (\<lambda>l. map (py_slice ia ib) (py_slice ja jb l)) (py_slice ka kb a))
           (nat (kb - ka)) (nat (jb - ja)) (nat (ib - ia))"
  proof (rule shape3_I)
    show "length (map (\<lambda>l. map (py_slice ia ib) (py_slice ja jb l)) (py_slice ka kb a)) = nat (kb - ka)"
      using lp by simp
    fix p assume p: "p < nat (kb - ka)"
    show "shape2 (map (\<lambda>l. map (py_slice ia ib) (py_slice ja jb l)) (py_slice ka kb a) ! p)
            (nat (jb - ja)) (nat (ib - ia))"
      using lp p lay[OF p] src2(1)[OF sh[OF p] j i] by simp
  qed
  fix p r c assume p: "p < nat (kb - ka)" and r: "r < nat (jb - ja)" and c: "c < nat (ib - ia)"
  show "map (\<lambda>l. map (py_slice ia ib) (py_slice ja jb l)) (py_slice ka kb a) ! p ! r ! c
             = a ! (nat ka + p) ! (nat ja + r) ! (nat ia + c)"
    using lp p lay[OF p] src2(2)[OF sh[OF p] j i r c] by simp
qed

section \<open>SOSEGrid: the indices of a constructed grid\<close>

lemma py_slice_empty: "0 \<le> a \<Longrightarrow> 0 \<le> b \<Longrightarrow> b \<le> a \<Longrightarrow> py_slice a b xs = []"
  by (auto simp: py_slice_def clip_def)

lemma lat_extend_0: "lat_extend 0 r b = []"
  by (simp add: lat_extend_def)

lemma check_bounds_nonempty:
  assumes "check_bounds lonc latc zs xmin xmax ymin ymax zsh zdp = Inr u"
  shows "lonc \<noteq> [] \<and> latc \<noteq> [] \<and> zs \<noteq> []"
  using check_bounds_Inr[OF assms] by (auto simp: first_elem_Inr)

lemma constructed_aligned:
  assumes ok: "SOSEGrid_init res f (Some mg) split = Inr g" and res: "0 < res"
      and xc: "shape2 (XC f) sny snx" and xg: "shape2 (XG f) sny snx"
      and yc: "shape2 (YC f) sny snx" and yg: "shape2 (YG f) sny snx"
  shows "aligned g (length (RC f)) sny snx"
proof -
  from SOSEGrid_init_Some[OF ok] obtain ml isplit lon1 lonc1 lat1 latc1 z1 where
    ax: "sose_axes f ml split = Inr (isplit, lon1, lonc1, lat1, latc1, z1)" and
    t: "sose_trim_extend res f mg isplit lon1 lonc1 lat1 latc1 z1 = Inr g" by blast
  note len = sose_axes_lengths[OF ax xc xg yc yg]
  from sose_trim_extend_Inr[OF t] obtain xmin xmax ymin ymax zsh zdp i0b i1b j0b j0a j1b k0a k1b nz'
      basec zm1 zm2 where
    wi: "west_index lon1 xmin = Inr i0b" and
    ei: "east_index lonc1 xmax (int (length lon1)) = Inr i1b" and
    si: "south_index res lat1 ymin = Inr (j0b, j0a)" and
    ni: "north_index latc1 ymax (int (length lat1)) = Inr j1b" and
    di: "depth_index z1 zsh zdp = Inr (k0a, k1b, nz')" and
    cb: "check_bounds (py_slice i0b i1b lonc1) (lat_extend j0a res basec @ py_slice j0b j1b latc1)
         (replicate (nat k0a) 0 @ py_slice 0 k1b z1 @ replicate (nat (nz' - (k1b + k0a))) (2 * zm1 - zm2))
         xmin xmax ymin ymax zsh zdp = Inr ()" and
    gi: "trim_extend g" "i0_before g = i0b" "i0_after g = 0" "i1_before g = i1b" "i1_after g = i1b - i0b"
        "s_nx g = i1b - i0b" and
    gj: "j0_before g = j0b" "j0_after g = j0a" "j1_before g = j1b" "j1_after g = j1b - j0b + j0a"
        "s_ny g = j1b - j0b + j0a" and
    gk: "k0_before g = 0" "k0_after g = k0a" "k1_before g = k1b" "k1_after g = k1b + k0a" "s_nz g = nz'"
    by (elim exE conjE) simp
  note w = west_index_bounds[OF wi]
  have e: "1 \<le> i1b \<and> i1b \<le> int snx" using east_index_bounds[OF ei] len by simp
  note s = south_index_bounds[OF si res]
  have n: "1 \<le> j1b \<and> j1b \<le> int sny" using north_index_bounds[OF ni] len by simp
  note d = depth_index_bounds[OF di]
  note ne = check_bounds_nonempty[OF cb]
  have i: "i0b < i1b"
  proof (rule ccontr)
    assume "\<not> i0b < i1b"
    then have "py_slice i0b i1b lonc1 = []" using w e by (simp add: py_slice_empty)
    then show False using ne by simp
  qed
  have j: "j0b \<le> j1b"
  proof (cases "j0a = 0")
    case True
    show ?thesis
    proof (rule ccontr)
      assume "\<not> j0b \<le> j1b"
      then have "py_slice j0b j1b latc1 = []" using s n by (simp add: py_slice_empty)
      then show False using ne True by (simp add: lat_extend_0)
    qed
  next
    case False
    then have "j0b = 0" using s by simp
    then show ?thesis using n by simp
  qed
  show ?thesis
    unfolding aligned_def gi(2-) gj gk using gi(1) w e s n d i j len by simp
qed

section \<open>SOSEGrid.read\_field: the aligned field\<close>

lemma shape2_blank: "shape2 (replicate n (replicate m v)) n m"
  by (simp add: shape2_def list_all_length)

lemma shape3_blank: "shape3 (replicate l (replicate n (replicate m v))) l n m"
  by (simp add: shape3_def shape2_def list_all_length)

lemma assign2_ok:
  assumes al: "aligned g snz sny snx" and d: "shape2 d sny snx"
  shows "\<exists>r. assign2 g (replicate (nat (s_ny g)) (replicate (nat (s_nx g)) fill))
                (split_longitude2 d (i_split g)) = Inr r
             \<and> claim_aligned2 g d fill r"
proof -
  define rot where "rot = split_longitude2 d (i_split g)"
  define ja jb ib where "ja = j0_after g" and "jb = j1_after g" and "ib = i1_after g"
  define n_y n_x where "n_y = nat (s_ny g)" and "n_x = nat (s_nx g)"
  let ?blank = "replicate n_y (replicate n_x fill)"
  let ?src = "map (py_slice (i0_before g) (i1_before g)) (py_slice (j0_before g) (j1_before g) rot)"
  have rot: "shape2 rot sny snx" unfolding rot_def by (rule shape2_split_longitude2[OF d])
  have bi: "0 \<le> i0_before g" "i0_before g \<le> i1_before g" "i1_before g \<le> int snx"
   and bj: "0 \<le> j0_before g" "j0_before g \<le> j1_before g" "j1_before g \<le> int sny"
   and ia: "i0_after g = 0" and ibv: "ib = i1_before g - i0_before g"
   and jbv: "jb = j1_before g - j0_before g + ja" and ja0: "0 \<le> ja"
   and ny: "int n_y = jb" and nx: "int n_x = ib"
    using al by (auto simp: aligned_def ja_def jb_def ib_def n_y_def n_x_def)
  have wj: "0 \<le> ja" "ja \<le> jb" "jb \<le> int n_y" using ja0 jbv bj ny by simp_all
  have wi: "(0::int) \<le> 0" "0 \<le> ib" "ib \<le> int n_x" using ibv bi nx by simp_all
  have dj: "jb - ja = j1_before g - j0_before g" using jbv by simp
  have di: "ib - 0 = i1_before g - i0_before g" using ibv by simp
  note s = src2[OF rot bj bi]
  have ssh: "shape2 ?src (nat (jb - ja)) (nat (ib - 0))" unfolding dj di by (rule s(1))
  have chk: "shape2 ?src (slice_len n_y ja jb) (slice_len n_x 0 ib)"
    using ssh wj wi by (simp add: slice_len_id)
  let ?r = "set_slice ja jb ?blank (map2 (set_slice 0 ib) (py_slice ja jb ?blank) ?src)"
  have run: "assign2 g ?blank rot = Inr ?r"
    using chk by (simp add: assign2_def Let_def ja_def jb_def ib_def ia n_y_def n_x_def)
  note w = window2[OF shape2_blank[of n_y n_x fill] wj wi ssh]
  have val: "\<And>j i. j < n_y \<Longrightarrow> i < n_x \<Longrightarrow> ?r ! j ! i = claim_window2 g rot fill j i"
  proof -
    fix j i assume j: "j < n_y" and i: "i < n_x"
    have cw: "claim_window2 g rot fill j i =
        (if ja \<le> int j \<and> int j < jb \<and> 0 \<le> int i \<and> int i < ib
         then rot ! nat (int j - ja + j0_before g) ! nat (int i - 0 + i0_before g) else fill)"
      by (simp add: claim_window2_def ja_def jb_def ib_def ia)
    have bl: "?blank ! j ! i = fill" using j i by simp
    show "?r ! j ! i = claim_window2 g rot fill j i"
    proof (cases "ja \<le> int j \<and> int j < jb \<and> 0 \<le> int i \<and> int i < ib")
      case False
      have "?r ! j ! i = ?blank ! j ! i" using w(2)[OF j i] by (simp only: if_not_P[OF False])
      then show ?thesis using bl by (simp only: cw if_not_P[OF False])
    next
      case True
      have r: "j - nat ja < nat (j1_before g - j0_before g)" using True wj dj by auto
      have c: "i - nat 0 < nat (i1_before g - i0_before g)" using True di by auto
      have e1: "nat (int j - ja + j0_before g) = nat (j0_before g) + (j - nat ja)"
        using True wj bj by auto
      have e2: "nat (int i - 0 + i0_before g) = nat (i0_before g) + (i - nat 0)" using bi by auto
      have "?r ! j ! i = ?src ! (j - nat ja) ! (i - nat 0)" using w(2)[OF j i] by (simp only: if_P[OF True])
      also have "\<dots> = rot ! (nat (j0_before g) + (j - nat ja)) ! (nat (i0_before g) + (i - nat 0))"
        by (rule s(2)[OF r c])
      finally show ?thesis by (simp only: cw if_P[OF True] e1 e2)
    qed
  qed
  have "claim_aligned2 g d fill ?r"
    unfolding claim_aligned2_def using w(1) val by (simp add: n_y_def n_x_def rot_def)
  then show ?thesis using run unfolding n_y_def n_x_def rot_def by blast
qed

lemma assign3_ok:
  assumes al: "aligned g snz sny snx" and d: "shape3 d snz sny snx"
  shows "\<exists>r. assign3 g (replicate (nat (s_nz g)) (replicate (nat (s_ny g)) (replicate (nat (s_nx g)) fill)))
                (split_longitude3 d (i_split g)) = Inr r
             \<and> claim_aligned3 g d fill r"
proof -
  define rot where "rot = split_longitude3 d (i_split g)"
  define ka kb ja jb ib where "ka = k0_after g" and "kb = k1_after g"
    and "ja = j0_after g" and "jb = j1_after g" and "ib = i1_after g"
  define n_z n_y n_x where "n_z = nat (s_nz g)" and "n_y = nat (s_ny g)" and "n_x = nat (s_nx g)"
  let ?blank = "replicate n_z (replicate n_y (replicate n_x fill))"
  let ?src = "map (\<lambda>l. map (py_slice (i0_before g) (i1_before g)) (py_slice (j0_before g) (j1_before g) l))
                (py_slice (k0_before g) (k1_before g) rot)"
  have rot: "shape3 rot snz sny snx" unfolding rot_def by (rule shape3_split_longitude3[OF d])
  have bi: "0 \<le> i0_before g" "i0_before g \<le> i1_before g" "i1_before g \<le> int snx"
   and bj: "0 \<le> j0_before g" "j0_before g \<le> j1_before g" "j1_before g \<le> int sny"
   and bk: "0 \<le> k0_before g" "k0_before g \<le> k1_before g" "k1_before g \<le> int snz"
   and k0: "k0_before g = 0"
   and ia: "i0_after g = 0" and ibv: "ib = i1_before g - i0_before g"
   and jbv: "jb = j1_before g - j0_before g + ja" and ja0: "0 \<le> ja"
   and kbv: "kb = k1_before g + ka" and ka0: "0 \<le> ka" and kz: "kb \<le> s_nz g"
   and ny: "int n_y = jb" and nx: "int n_x = ib"
    using al by (auto simp: aligned_def ka_def kb_def ja_def jb_def ib_def n_y_def n_x_def)
  have nz: "kb \<le> int n_z" using kz by (simp add: n_z_def)
  have wk: "0 \<le> ka" "ka \<le> kb" "kb \<le> int n_z" using ka0 kbv bk k0 nz by simp_all
  have wj: "0 \<le> ja" "ja \<le> jb" "jb \<le> int n_y" using ja0 jbv bj ny by simp_all
  have wi: "(0::int) \<le> 0" "0 \<le> ib" "ib \<le> int n_x" using ibv bi nx by simp_all
  have dk: "kb - ka = k1_before g - k0_before g" using kbv k0 by simp
  have dj: "jb - ja = j1_before g - j0_before g" using jbv by simp
  have di: "ib - 0 = i1_before g - i0_before g" using ibv by simp
  note s = src3[OF rot bk bj bi]
  have ssh: "shape3 ?src (nat (kb - ka)) (nat (jb - ja)) (nat (ib - 0))" unfolding dk dj di by (rule s(1))
  have chk: "shape3 ?src (slice_len n_z ka kb) (slice_len n_y ja jb) (slice_len n_x 0 ib)"
    using ssh wk wj wi by (simp add: slice_len_id)
  let ?r = "set_slice ka kb ?blank
              (map2 (\<lambda>d l. set_slice ja jb d (map2 (set_slice 0 ib) (py_slice ja jb d) l))
                 (py_slice ka kb ?blank) ?src)"
  have run: "assign3 g ?blank rot = Inr ?r"
    using chk by (simp add: assign3_def Let_def ka_def kb_def ja_def jb_def ib_def ia n_z_def n_y_def n_x_def)
  note w = window3[OF shape3_blank[of n_z n_y n_x fill] wk wj wi ssh]
  have val: "\<And>k j i. k < n_z \<Longrightarrow> j < n_y \<Longrightarrow> i < n_x \<Longrightarrow> ?r ! k ! j ! i = claim_window3 g rot fill k j i"
  proof -
    fix k j i assume k: "k < n_z" and j: "j < n_y" and i: "i < n_x"
    let ?in = "ka \<le> int k \<and> int k < kb \<and> ja \<le> int j \<and> int j < jb \<and> 0 \<le> int i \<and> int i < ib"
    have cw: "claim_window3 g rot fill k j i =
        (if ?in
         then rot ! nat (int k - ka + k0_before g) ! nat (int j - ja + j0_before g)
                  ! nat (int i - 0 + i0_before g) else fill)"
      by (simp add: claim_window3_def ka_def kb_def ja_def jb_def ib_def ia)
    have bl: "?blank ! k ! j ! i = fill" using k j i by simp
    show "?r ! k ! j ! i = claim_window3 g rot fill k j i"
    proof (cases ?in)
      case False
      have "?r ! k ! j ! i = ?blank ! k ! j ! i" using w(2)[OF k j i] by (simp only: if_not_P[OF False])
      then show ?thesis using bl by (simp only: cw if_not_P[OF False])
    next
      case True
      have p: "k - nat ka < nat (k1_before g - k0_before g)" using True wk dk by auto
      have r: "j - nat ja < nat (j1_before g - j0_before g)" using True wj dj by auto
      have c: "i - nat 0 < nat (i1_before g - i0_before g)" using True di by auto
      have e0: "nat (int k - ka + k0_before g) = nat (k0_before g) + (k - nat ka)"
        using True wk bk by auto
      have e1: "nat (int j - ja + j0_before g) = nat (j0_before g) + (j - nat ja)"
        using True wj bj by auto
      have e2: "nat (int i - 0 + i0_before g) = nat (i0_before g) + (i - nat 0)" using bi by auto
      have "?r ! k ! j ! i = ?src ! (k - nat ka) ! (j - nat ja) ! (i - nat 0)"
        using w(2)[OF k j i] by (simp only: if_P[OF True])
      also have "\<dots> = rot ! (nat (k0_before g) + (k - nat ka)) ! (nat (j0_before g) + (j - nat ja))
                         ! (nat (i0_before g) + (i - nat 0))"
        by (rule s(2)[OF p r c])
      finally show ?thesis by (simp only: cw if_P[OF True] e0 e1 e2)
    qed
  qed
  have "claim_aligned3 g d fill ?r"
    unfolding claim_aligned3_def using w(1) val by (simp add: n_z_def n_y_def n_x_def rot_def)
  then show ?thesis using run unfolding n_z_def n_y_def n_x_def rot_def by blast
qed

lemma map_time_ok:
  assumes "\<And>x. x \<in> set xs \<Longrightarrow> \<exists>y. f x = Inr y \<and> P x y"
  shows "\<exists>ys. map_time f xs = Inr ys \<and> length ys = length xs \<and> (\<forall>t<length xs. P (xs ! t) (ys ! t))"
  using assms
proof (induction xs)
  case Nil
  then show ?case by simp
next
  case (Cons x xs)
  from Cons.prems[of x] obtain y where y: "f x = Inr y" "P x y" by auto
  from Cons.IH Cons.prems obtain ys where
    ys: "map_time f xs = Inr ys" "length ys = length xs" "\<forall>t<length xs. P (xs ! t) (ys ! t)"
    by auto
  have "map_time f (x # xs) = Inr (y # ys)" using y ys by (simp add: bindE_def)
  moreover have "\<forall>t<length (x # xs). P ((x # xs) ! t) ((y # ys) ! t)"
    using y ys by (auto simp: nth_Cons split: nat.splits)
  ultimately show ?case using ys by auto
qed

lemma aligned_dims: "aligned g snz sny snx \<Longrightarrow> trim_extend g \<and> 0 \<le> s_nx g \<and> 0 \<le> s_ny g \<and> 0 \<le> s_nz g"
  by (auto simp: aligned_def)

lemma read_field_xy:
  assumes al: "aligned g snz sny snx" and d: "shape2 d sny snx"
  shows "\<exists>r. read_field g (A2 d) ''xy'' fill = Inr (A2 r) \<and> claim_aligned2 g d fill r"
proof -
  from assign2_ok[OF al d, of fill] obtain r where
    a: "assign2 g (replicate (nat (s_ny g)) (replicate (nat (s_nx g)) fill)) (split_longitude2 d (i_split g)) = Inr r"
    and c: "claim_aligned2 g d fill r" by blast
  have "read_field g (A2 d) ''xy'' fill = Inr (A2 r)"
    using aligned_dims[OF al] a by (simp add: read_field_def Let_def bindE_def)
  then show ?thesis using c by blast
qed

lemma read_field_xyz:
  assumes al: "aligned g snz sny snx" and d: "shape3 d snz sny snx"
  shows "\<exists>r. read_field g (A3 d) ''xyz'' fill = Inr (A3 r) \<and> claim_aligned3 g d fill r"
proof -
  from assign3_ok[OF al d, of fill] obtain r where
    a: "assign3 g (replicate (nat (s_nz g)) (replicate (nat (s_ny g)) (replicate (nat (s_nx g)) fill)))
          (split_longitude3 d (i_split g)) = Inr r"
    and c: "claim_aligned3 g d fill r" by blast
  have "read_field g (A3 d) ''xyz'' fill = Inr (A3 r)"
    using aligned_dims[OF al] a by (simp add: read_field_def Let_def bindE_def)
  then show ?thesis using c by blast
qed

lemma read_field_xyt:
  assumes al: "aligned g snz sny snx" and d: "list_all (\<lambda>x. shape2 x sny snx) d"
  shows "\<exists>r. read_field g (A3 d) ''xyt'' fill = Inr (A3 r) \<and> length r = length d
             \<and> (\<forall>t<length d. claim_aligned2 g (d ! t) fill (r ! t))"
proof -
  let ?f = "\<lambda>x. assign2 g (replicate (nat (s_ny g)) (replicate (nat (s_nx g)) fill)) (split_longitude2 x (i_split g))"
  have "\<And>x. x \<in> set d \<Longrightarrow> \<exists>y. ?f x = Inr y \<and> claim_aligned2 g x fill y"
    using d assign2_ok[OF al] by (simp add: list_all_iff)
  from map_time_ok[of d ?f "\<lambda>x y. claim_aligned2 g x fill y", OF this] obtain r where
    m: "map_time ?f d = Inr r" and l: "length r = length d"
    and c: "\<forall>t<length d. claim_aligned2 g (d ! t) fill (r ! t)" by blast
  have "read_field g (A3 d) ''xyt'' fill = Inr (A3 r)"
    using aligned_dims[OF al] m by (simp add: read_field_def Let_def bindE_def)
  then show ?thesis using l c by blast
qed

lemma read_field_xyzt:
  assumes al: "aligned g snz sny snx" and d: "list_all (\<lambda>x. shape3 x snz sny snx) d"
  shows "\<exists>r. read_field g (A4 d) ''xyzt'' fill = Inr (A4 r) \<and> length r = length d
             \<and> (\<forall>t<length d. claim_aligned3 g (d ! t) fill (r ! t))"
proof -
  let ?f = "\<lambda>x. assign3 g (replicate (nat (s_nz g)) (replicate (nat (s_ny g)) (replicate (nat (s_nx g)) fill)))
                  (split_longitude3 x (i_split g))"
  have "\<And>x. x \<in> set d \<Longrightarrow> \<exists>y. ?f x = Inr y \<and> claim_aligned3 g x fill y"
    using d assign3_ok[OF al] by (simp add: list_all_iff)
  from map_time_ok[of d ?f "\<lambda>x y. claim_aligned3 g x fill y", OF this] obtain r where
    m: "map_time ?f d = Inr r" and l: "length r = length d"
    and c: "\<forall>t<length d. claim_aligned3 g (d ! t) fill (r ! t)" by blast
  have "read_field g (A4 d) ''xyzt'' fill = Inr (A4 r)"
    using aligned_dims[OF al] m by (simp add: read_field_def Let_def bindE_def)
  then show ?thesis using l c by blast
qed

text \<open>
  Claim C8. Let a SOSEGrid \<open>g\<close> be constructed with a model grid (so \<open>trim_extend\<close>
  holds) from source files of \<open>sny\<close> latitudes, \<open>snx\<close> longitudes and \<open>length RC\<close>
  depths, with a positive \<open>sose_res\<close>, and let \<open>fill\<close> be any fill value. Then for each
  of the four supported \<open>dimensions\<close> and every field of the native shape of the source
  (2D for \<open>xy\<close>, 3D for \<open>xyz\<close>, a list of these over time for \<open>xyt\<close> and \<open>xyzt\<close>),
  \<open>read_field\<close> returns an array; the array has the aligned shape \<open>((time,) (nz,) ny,
  nx)\<close>; inside the window of the "after" indices (with the depth range for \<open>xyz\<close> and
  \<open>xyzt\<close> only) it is the field, rotated in longitude by \<open>i_split\<close>, at the
  corresponding "before" indices; and at every other position it is \<open>fill\<close>.
\<close>

theorem read_field_window:
  assumes ok: "SOSEGrid_init res f (Some mg) split = Inr g" and res: "0 < res"
      and xc: "shape2 (XC f) sny snx" and xg: "shape2 (XG f) sny snx"
      and yc: "shape2 (YC f) sny snx" and yg: "shape2 (YG f) sny snx"
  shows "(\<forall>d. shape2 d sny snx \<longrightarrow>
            (\<exists>r. read_field g (A2 d) ''xy'' fill = Inr (A2 r) \<and> claim_aligned2 g d fill r))
       \<and> (\<forall>d. list_all (\<lambda>x. shape2 x sny snx) d \<longrightarrow>
            (\<exists>r. read_field g (A3 d) ''xyt'' fill = Inr (A3 r) \<and> length r = length d
                 \<and> (\<forall>t<length d. claim_aligned2 g (d ! t) fill (r ! t))))
       \<and> (\<forall>d. shape3 d (length (RC f)) sny snx \<longrightarrow>
            (\<exists>r. read_field g (A3 d) ''xyz'' fill = Inr (A3 r) \<and> claim_aligned3 g d fill r))
       \<and> (\<forall>d. list_all (\<lambda>x. shape3 x (length (RC f)) sny snx) d \<longrightarrow>
            (\<exists>r. read_field g (A4 d) ''xyzt'' fill = Inr (A4 r) \<and> length r = length d
                 \<and> (\<forall>t<length d. claim_aligned3 g (d ! t) fill (r ! t))))"
proof -
  note al = constructed_aligned[OF ok res xc xg yc yg]
  show ?thesis
    using read_field_xy[OF al] read_field_xyt[OF al] read_field_xyz[OF al] read_field_xyzt[OF al]
    by blast
qed

lemma example_sose_files_shapes:
  "shape2 (XC example_sose_files) 6 8" "shape2 (XG example_sose_files) 6 8"
  "shape2 (YC example_sose_files) 6 8" "shape2 (YG example_sose_files) 6 8"
  by (simp_all add: example_sose_files_def shape2_def list_all_iff)

lemma example_sose_indices:
  "i_split example_sose_grid = 2"
  "i0_before example_sose_grid = 1" "i0_after example_sose_grid = 0" "i1_after example_sose_grid = 5"
  "j0_before example_sose_grid = 0" "j0_after example_sose_grid = 4" "j1_after example_sose_grid = 9"
  "s_nx example_sose_grid = 5" "s_ny example_sose_grid = 9"
  by (simp_all add: example_sose_grid_eq example_sose_result_def example_align_def)

theorem read_field_window_witness:
  "SOSEGrid_init (1/2) example_sose_files (Some example_grid) 180 = Inr example_sose_grid
   \<and> shape2 (XC example_sose_files) 6 8 \<and> shape2 example_field 6 8
   \<and> (\<exists>r. read_field example_sose_grid (A2 example_field) ''xy'' (-9999) = Inr (A2 r)
          \<and> shape2 r 9 5 \<and> r ! 0 ! 0 = -9999 \<and> r ! 4 ! 0 = 3 \<and> r ! 8 ! 4 = 47)"
proof -
  have ok: "SOSEGrid_init (1/2) example_sose_files (Some example_grid) 180 = Inr example_sose_grid"
    by (simp add: example_sose_grid_eq example_sose_constructed)
  have res: "(0::real) < 1/2" by simp
  have fld: "shape2 example_field 6 8" by (simp add: example_field_def shape2_def)
  note t = read_field_window[OF ok res example_sose_files_shapes, of "-9999"]
  from t fld obtain r where
    rd: "read_field example_sose_grid (A2 example_field) ''xy'' (-9999) = Inr (A2 r)"
    and cl: "claim_aligned2 example_sose_grid example_field (-9999) r" by blast
  have sh: "shape2 r 9 5" using cl by (simp add: claim_aligned2_def example_sose_indices)
  have pt: "\<And>j i. j < 9 \<Longrightarrow> i < 5 \<Longrightarrow>
      r ! j ! i = claim_window2 example_sose_grid (split_longitude2 example_field 2) (-9999) j i"
    using cl by (simp add: claim_aligned2_def example_sose_indices)
  have v0: "r ! 0 ! 0 = -9999"
    using pt[of 0 0] by (simp add: claim_window2_def example_sose_indices)
  have v1: "r ! 4 ! 0 = 3"
    using pt[of 4 0]
    by (simp add: claim_window2_def example_sose_indices example_field_def split_longitude2_def split_longitude_def)
  have v2: "r ! 8 ! 4 = 47"
    using pt[of 8 4]
    by (simp add: claim_window2_def example_sose_indices example_field_def split_longitude2_def split_longitude_def
        numeral_eq_Suc)
  show ?thesis using ok example_sose_files_shapes(1) fld rd sh v0 v1 v2 by blast
qed

end
